theory Spec2Isabelle
  imports Main "HOL-Library.Word"
begin

unbundle bit_operations_syntax

section \<open>BIRD: the Linux netlink interface (sysdep/linux/netlink/netlink.c)\<close>

text \<open>
  A shallow embedding of the netlink engine of BIRD's kernel syncer. Every function of
  \<^verbatim>\<open>netlink.c\<close> that a verified property depends on is translated into a HOL definition
  of the same name. The conventions:
  \<^item> C integers of a fixed width are words (\<open>u32\<close>, \<open>u16\<close>, \<open>byte\<close>); the \<^verbatim>\<open>int\<close>
    \<^verbatim>\<open>nl_attr_len\<close> is an \<open>int\<close>, obtained by \<open>sint\<close> from the 32-bit difference;
  \<^item> a netlink message in a buffer is its header, the structure found at
    \<^verbatim>\<open>NLMSG_DATA\<close> (the type parameter stands for the cast the caller applies) and the
    sequence of attribute headers found behind it at successive \<^verbatim>\<open>RTA_ALIGN\<close>ed
    offsets; a receive buffer is the sequence of message headers found at successive
    \<^verbatim>\<open>NLMSG_ALIGN\<close>ed offsets. A pointer into such a sequence is the rest of the
    sequence, \<^verbatim>\<open>NULL\<close> is \<open>None\<close>. The length fields stay what the wire says, and
    \<^verbatim>\<open>NLMSG_OK\<close>, \<^verbatim>\<open>NLMSG_NEXT\<close>, \<^verbatim>\<open>RTA_OK\<close>, \<^verbatim>\<open>RTA_NEXT\<close> compute with them as
    the kernel macros do;
  \<^item> \<^verbatim>\<open>log()\<close> appends to a list of log entries, each the class and the format string
    of the call (without a newline at its end); \<^verbatim>\<open>DBG()\<close> is debugging output and is
    left out; \<^verbatim>\<open>die()\<close> and \<^verbatim>\<open>bug()\<close> end the program and are error results;
  \<^item> the kernel is the environment: what \<^verbatim>\<open>recvmsg\<close> will deliver is a queue of
    datagrams in the state, what \<^verbatim>\<open>sendto\<close> was given is a list of sent messages;
  \<^item> the rest of the daemon (\<^verbatim>\<open>if_find_by_index\<close>, \<^verbatim>\<open>neigh_find\<close>) is passed as a
    function, and what is handed to it (\<^verbatim>\<open>if_update\<close>, \<^verbatim>\<open>krt_got_route\<close>) is returned.
\<close>

type_synonym byte = "8 word"
type_synonym u16 = "16 word"
type_synonym u32 = "32 word"

subsection \<open>Constants of the kernel interface\<close>

text \<open>
  The values of \<^verbatim>\<open><linux/netlink.h>\<close>, \<^verbatim>\<open><linux/rtnetlink.h>\<close>, \<^verbatim>\<open><net/if.h>\<close> and
  \<^verbatim>\<open><sys/socket.h>\<close>, which are the kernel's binary interface. For \<^verbatim>\<open>RTPROT_BIRD\<close>
  it is the number that \<^verbatim>\<open>netlink.c\<close> defines itself.
\<close>

definition NLMSG_ERROR :: u16 where "NLMSG_ERROR = 2"
definition NLMSG_DONE :: u16 where "NLMSG_DONE = 3"

definition RTM_NEWLINK :: u16 where "RTM_NEWLINK = 16"
definition RTM_DELLINK :: u16 where "RTM_DELLINK = 17"
definition RTM_GETLINK :: u16 where "RTM_GETLINK = 18"
definition RTM_NEWADDR :: u16 where "RTM_NEWADDR = 20"
definition RTM_DELADDR :: u16 where "RTM_DELADDR = 21"
definition RTM_GETADDR :: u16 where "RTM_GETADDR = 22"
definition RTM_NEWROUTE :: u16 where "RTM_NEWROUTE = 24"
definition RTM_DELROUTE :: u16 where "RTM_DELROUTE = 25"
definition RTM_GETROUTE :: u16 where "RTM_GETROUTE = 26"

definition NLM_F_REQUEST :: u16 where "NLM_F_REQUEST = 1"
definition NLM_F_ACK :: u16 where "NLM_F_ACK = 4"
definition NLM_F_ROOT :: u16 where "NLM_F_ROOT = 0x100"
definition NLM_F_MATCH :: u16 where "NLM_F_MATCH = 0x200"
definition NLM_F_DUMP :: u16 where "NLM_F_DUMP = NLM_F_ROOT OR NLM_F_MATCH"
definition NLM_F_REPLACE :: u16 where "NLM_F_REPLACE = 0x100"
definition NLM_F_CREATE :: u16 where "NLM_F_CREATE = 0x400"

definition AF_INET :: byte where "AF_INET = 2"
definition PF_INET :: byte where "PF_INET = AF_INET"

definition IFF_UP :: u32 where "IFF_UP = 0x1"
definition IFF_BROADCAST :: u32 where "IFF_BROADCAST = 0x2"
definition IFF_LOOPBACK :: u32 where "IFF_LOOPBACK = 0x8"
definition IFF_POINTOPOINT :: u32 where "IFF_POINTOPOINT = 0x10"

definition IFLA_IFNAME :: nat where "IFLA_IFNAME = 3"
definition IFLA_MTU :: nat where "IFLA_MTU = 4"
definition IFLA_STATS :: nat where "IFLA_STATS = 7"

definition IFA_ADDRESS :: nat where "IFA_ADDRESS = 1"
definition IFA_LOCAL :: nat where "IFA_LOCAL = 2"
definition IFA_BROADCAST :: nat where "IFA_BROADCAST = 4"
definition IFA_ANYCAST :: nat where "IFA_ANYCAST = 5"
definition IFA_F_SECONDARY :: byte where "IFA_F_SECONDARY = 0x01"

definition RTA_DST :: nat where "RTA_DST = 1"
definition RTA_OIF :: nat where "RTA_OIF = 4"
definition RTA_GATEWAY :: nat where "RTA_GATEWAY = 5"
definition RTA_CACHEINFO :: nat where "RTA_CACHEINFO = 12"

definition RTN_UNICAST :: byte where "RTN_UNICAST = 1"
definition RTN_BLACKHOLE :: byte where "RTN_BLACKHOLE = 6"
definition RTN_UNREACHABLE :: byte where "RTN_UNREACHABLE = 7"
definition RTN_PROHIBIT :: byte where "RTN_PROHIBIT = 8"

definition RTPROT_REDIRECT :: byte where "RTPROT_REDIRECT = 1"
definition RTPROT_KERNEL :: byte where "RTPROT_KERNEL = 2"
definition RTPROT_BIRD :: byte where "RTPROT_BIRD = 13"

definition RT_TABLE_MAIN :: byte where "RT_TABLE_MAIN = 254"
definition RT_SCOPE_UNIVERSE :: byte where "RT_SCOPE_UNIVERSE = 0"

subsection \<open>Sizes of the C structures\<close>

text \<open>
  \<^verbatim>\<open>sizeof\<close> follows the C layout rule: every member is placed at the next multiple of
  its alignment, and the size of the structure is rounded up to the largest alignment of
  its members. A member is given as (size, alignment).
\<close>

definition align_up :: "nat \<Rightarrow> nat \<Rightarrow> nat" where
  "align_up n a = ((n + a - 1) div a) * a"

definition c_sizeof_struct :: "(nat \<times> nat) list \<Rightarrow> nat" where
  "c_sizeof_struct ms =
     align_up (foldl (\<lambda>off (sz, al). align_up off al + sz) 0 ms) (foldl max 1 (map snd ms))"

definition c_alignof_struct :: "(nat \<times> nat) list \<Rightarrow> nat" where
  "c_alignof_struct ms = foldl max 1 (map snd ms)"

text \<open>\<^verbatim>\<open>struct nlmsghdr { __u32 nlmsg_len; __u16 nlmsg_type; __u16 nlmsg_flags;
  __u32 nlmsg_seq; __u32 nlmsg_pid; }\<close>\<close>

definition nlmsghdr_members :: "(nat \<times> nat) list" where
  "nlmsghdr_members = [(4, 4), (2, 2), (2, 2), (4, 4), (4, 4)]"

definition sizeof_nlmsghdr :: nat where
  "sizeof_nlmsghdr = c_sizeof_struct nlmsghdr_members"

text \<open>\<^verbatim>\<open>struct rtgenmsg { unsigned char rtgen_family; }\<close>\<close>

definition rtgenmsg_members :: "(nat \<times> nat) list" where
  "rtgenmsg_members = [(1, 1)]"

definition sizeof_rtgenmsg :: nat where
  "sizeof_rtgenmsg = c_sizeof_struct rtgenmsg_members"

text \<open>The local \<^verbatim>\<open>struct { struct nlmsghdr nh; struct rtgenmsg g; } req\<close> of
  \<^verbatim>\<open>nl_request_dump\<close>.\<close>

definition sizeof_dump_req :: nat where
  "sizeof_dump_req =
     c_sizeof_struct [(sizeof_nlmsghdr, c_alignof_struct nlmsghdr_members),
                      (sizeof_rtgenmsg, c_alignof_struct rtgenmsg_members)]"

text \<open>\<^verbatim>\<open>struct rtmsg\<close>: eight \<^verbatim>\<open>unsigned char\<close> and one \<^verbatim>\<open>unsigned\<close>;
  \<^verbatim>\<open>struct ifaddrmsg\<close>: four \<^verbatim>\<open>unsigned char\<close> and one \<^verbatim>\<open>int\<close>;
  \<^verbatim>\<open>struct ifinfomsg\<close>: two \<^verbatim>\<open>unsigned char\<close>, one \<^verbatim>\<open>unsigned short\<close>, one \<^verbatim>\<open>int\<close>
  and two \<^verbatim>\<open>unsigned\<close>; \<^verbatim>\<open>struct nlmsgerr\<close>: one \<^verbatim>\<open>int\<close> and a \<^verbatim>\<open>struct nlmsghdr\<close>.\<close>

definition sizeof_rtmsg :: nat where
  "sizeof_rtmsg = c_sizeof_struct (replicate 8 (1, 1) @ [(4, 4)])"

definition sizeof_ifaddrmsg :: nat where
  "sizeof_ifaddrmsg = c_sizeof_struct (replicate 4 (1, 1) @ [(4, 4)])"

definition sizeof_ifinfomsg :: nat where
  "sizeof_ifinfomsg = c_sizeof_struct [(1, 1), (1, 1), (2, 2), (4, 4), (4, 4), (4, 4)]"

definition sizeof_nlmsgerr :: nat where
  "sizeof_nlmsgerr = c_sizeof_struct [(4, 4), (sizeof_nlmsghdr, c_alignof_struct nlmsghdr_members)]"

definition sizeof_rtattr :: nat where
  "sizeof_rtattr = c_sizeof_struct [(2, 2), (2, 2)]"

subsection \<open>Messages, attributes and the alignment macros\<close>

record rtattr =
  rta_len :: u16
  rta_type :: u16
  rta_data :: "byte list"

record 'b nlmsg =
  nlmsg_len :: u32
  nlmsg_type :: u16
  nlmsg_flags :: u16
  nlmsg_seq :: u32
  nlmsg_pid :: u32
  nlmsg_data :: 'b
  nlmsg_attrs :: "rtattr list"

text \<open>\<^verbatim>\<open>#define NLMSG_ALIGN(len) ( ((len)+NLMSG_ALIGNTO-1) & ~(NLMSG_ALIGNTO-1) )\<close>,
  on the unsigned 32-bit length of a header.\<close>

definition NLMSG_ALIGN :: "u32 \<Rightarrow> u32" where
  "NLMSG_ALIGN len = (len + 4 - 1) AND NOT (4 - 1)"

text \<open>\<^verbatim>\<open>#define NLMSG_LENGTH(len) ((len)+NLMSG_ALIGN(sizeof(struct nlmsghdr)))\<close>\<close>

definition NLMSG_LENGTH :: "nat \<Rightarrow> nat" where
  "NLMSG_LENGTH len = len + align_up sizeof_nlmsghdr 4"

text \<open>\<^verbatim>\<open>#define RTA_ALIGN(len) ( ((len)+RTA_ALIGNTO-1) & ~(RTA_ALIGNTO-1) )\<close>, computed in
  \<^verbatim>\<open>int\<close> on the promoted \<^verbatim>\<open>unsigned short\<close>.\<close>

definition RTA_ALIGN :: "int \<Rightarrow> int" where
  "RTA_ALIGN len = ((len + 4 - 1) div 4) * 4"

definition RTA_LENGTH :: "nat \<Rightarrow> nat" where
  "RTA_LENGTH len = align_up sizeof_rtattr 4 + len"

text \<open>\<^verbatim>\<open>#define RTA_PAYLOAD(rta) ((int)((rta)->rta_len) - RTA_LENGTH(0))\<close>\<close>

definition RTA_PAYLOAD :: "rtattr \<Rightarrow> int" where
  "RTA_PAYLOAD a = uint (rta_len a) - int (RTA_LENGTH 0)"

text \<open>\<^verbatim>\<open>#define RTA_OK(rta,len) ((len) > 0 && (rta)->rta_len >= sizeof(struct rtattr) &&
  (rta)->rta_len <= (len))\<close>. Later kernels test \<^verbatim>\<open>(len) >= (int)sizeof(struct rtattr)\<close>
  first, which gives the same truth value.\<close>

definition RTA_OK :: "rtattr \<Rightarrow> int \<Rightarrow> bool" where
  "RTA_OK a len \<longleftrightarrow> len > 0 \<and> unat (rta_len a) \<ge> sizeof_rtattr \<and> uint (rta_len a) \<le> len"

text \<open>\<^verbatim>\<open>#define NLMSG_OK(nlh,len) ((len) > 0 && (nlh)->nlmsg_len >= sizeof(struct nlmsghdr)
  && (nlh)->nlmsg_len <= (len))\<close> with an \<^verbatim>\<open>unsigned int len\<close>.\<close>

definition NLMSG_OK :: "'b nlmsg \<Rightarrow> u32 \<Rightarrow> bool" where
  "NLMSG_OK nlh len \<longleftrightarrow>
     len > 0 \<and> unat (nlmsg_len nlh) \<ge> sizeof_nlmsghdr \<and> nlmsg_len nlh \<le> len"

subsection \<open>Logging and fatal errors\<close>

datatype log_class = L_DEBUG | L_WARN | L_ERR

type_synonym log_entry = "log_class \<times> string"

datatype fatal =
    Die string       \<comment> \<open>\<^verbatim>\<open>die()\<close>\<close>
  | Bug string       \<comment> \<open>\<^verbatim>\<open>bug()\<close>\<close>
  | Recv_blocks      \<comment> \<open>\<^verbatim>\<open>recvmsg\<close> waits: the kernel has sent all it sends in this run\<close>
  | Null_deref       \<comment> \<open>a read through a \<^verbatim>\<open>NULL\<close> pointer\<close>

subsection \<open>Synchronous Netlink interface\<close>

text \<open>What one \<^verbatim>\<open>recvmsg\<close> delivers: its return value \<^verbatim>\<open>x\<close>, the sender's
  \<^verbatim>\<open>sa.nl_pid\<close>, whether \<^verbatim>\<open>MSG_TRUNC\<close> is set in \<^verbatim>\<open>m.msg_flags\<close>, and the headers it
  wrote into \<^verbatim>\<open>nl_rx_buffer\<close>, which are then all the headers the buffer holds. The
  kernel's datagrams of one run are a finite queue; a \<^verbatim>\<open>recvmsg\<close> on the empty queue
  waits for ever, which is the result \<open>Recv_blocks\<close>.\<close>

record 'r datagram =
  dg_ret :: int
  dg_pid :: u32
  dg_trunc :: bool
  dg_frames :: "'r nlmsg list"

text \<open>The static variables \<^verbatim>\<open>nl_sync_seq\<close>, \<^verbatim>\<open>nl_last_hdr\<close> (a pointer into
  \<^verbatim>\<open>nl_rx_buffer\<close>) and \<^verbatim>\<open>nl_last_size\<close>, the log, and the kernel's side of the socket.\<close>

record ('t, 'r) nl_sync =
  nl_sync_seq :: u32
  nl_last_hdr :: "'r nlmsg list option"
  nl_last_size :: u32
  nl_log :: "log_entry list"
  rx_queue :: "'r datagram list"
  tx_sent :: "'t nlmsg list"
  sendto_fails :: bool

text \<open>\<^verbatim>\<open>nl_send\<close>: stamp pid and the incremented sequence number, send, forget the
  receive cursor.\<close>

definition nl_send :: "'t nlmsg \<Rightarrow> ('t, 'r) nl_sync \<Rightarrow> fatal + ('t, 'r) nl_sync" where
  "nl_send nh s =
     (let s1 = s\<lparr>nl_sync_seq := nl_sync_seq s + 1\<rparr>;
          nh1 = nh\<lparr>nlmsg_pid := 0, nlmsg_seq := nl_sync_seq s1\<rparr>
      in if sendto_fails s1 then Inl (Die ''rtnetlink sendto: %m'')
         else Inr (s1\<lparr>tx_sent := tx_sent s1 @ [nh1], nl_last_hdr := None\<rparr>))"

text \<open>\<^verbatim>\<open>nl_request_dump\<close>: the local \<^verbatim>\<open>req\<close> as it is when \<^verbatim>\<open>nl_send\<close> is called, and
  the call. \<^verbatim>\<open>req\<close> is not initialised: the fields that are not assigned (\<^verbatim>\<open>nlmsg_seq\<close> and
  \<^verbatim>\<open>nlmsg_pid\<close>, which \<^verbatim>\<open>nl_send\<close> stamps) hold what \<open>junk\<close> holds. The body is the one
  byte \<^verbatim>\<open>rtgen_family\<close>.\<close>

definition nl_dump_req :: "byte nlmsg \<Rightarrow> int \<Rightarrow> byte nlmsg" where
  "nl_dump_req junk cmd =
     junk\<lparr>nlmsg_type := word_of_int cmd,
          nlmsg_len := of_nat sizeof_dump_req,
          nlmsg_flags := NLM_F_REQUEST OR NLM_F_DUMP,
          nlmsg_data := PF_INET,
          nlmsg_attrs := []\<rparr>"

definition nl_request_dump ::
  "byte nlmsg \<Rightarrow> int \<Rightarrow> (byte, 'r) nl_sync \<Rightarrow> fatal + (byte, 'r) nl_sync" where
  "nl_request_dump junk cmd s = nl_send (nl_dump_req junk cmd) s"

text \<open>One turn of the \<^verbatim>\<open>for(;;)\<close> loop of \<^verbatim>\<open>nl_get_reply\<close>: first the
  \<^verbatim>\<open>if (!nl_last_hdr)\<close> block with its \<^verbatim>\<open>recvmsg\<close>, then the look at the header under the
  cursor; behind the last header of the buffer there is no message (bytes that an
  earlier, longer datagram left in the buffer are left out). A turn returns a header,
  starts the next turn, or ends the program.\<close>

datatype ('a, 'b) turn = Return 'a 'b | Continue 'b | Fail fatal

definition nl_get_reply_remnant :: "('t, 'r) nl_sync \<Rightarrow> ('t, 'r) nl_sync" where
  "nl_get_reply_remnant s =
     (if nl_last_size s \<noteq> 0
      then s\<lparr>nl_log := nl_log s @
             [(L_WARN, ''nl_get_reply: Found packet remnant of size %d'')]\<rparr>
      else s)\<lparr>nl_last_hdr := None\<rparr>"

definition nl_get_reply_inspect ::
  "('t, 'r) nl_sync \<Rightarrow> 'r nlmsg list \<Rightarrow> ('r nlmsg, ('t, 'r) nl_sync) turn" where
  "nl_get_reply_inspect s cur =
     (case cur of
        h # rest \<Rightarrow>
          if NLMSG_OK h (nl_last_size s) then
            if nlmsg_seq h \<noteq> nl_sync_seq s then
              Continue (s\<lparr>nl_log := nl_log s @
                [(L_WARN, ''nl_get_reply: Ignoring out of sequence netlink packet (%x != %x)'')]\<rparr>)
            else
              Return h (s\<lparr>nl_last_size := nl_last_size s - NLMSG_ALIGN (nlmsg_len h),
                          nl_last_hdr := Some rest\<rparr>)
          else Continue (nl_get_reply_remnant s)
      | [] \<Rightarrow> Continue (nl_get_reply_remnant s))"

definition nl_get_reply_turn ::
  "('t, 'r) nl_sync \<Rightarrow> ('r nlmsg, ('t, 'r) nl_sync) turn" where
  "nl_get_reply_turn s =
     (case nl_last_hdr s of
        None \<Rightarrow>
          (case rx_queue s of
             [] \<Rightarrow> Fail Recv_blocks
           | d # ds \<Rightarrow>
               if dg_ret d < 0 then Fail (Die ''nl_get_reply: %m'')
               else if dg_pid d \<noteq> 0 then Continue (s\<lparr>rx_queue := ds\<rparr>)
               else
                 let s1 = s\<lparr>rx_queue := ds, nl_last_size := word_of_int (dg_ret d),
                            nl_last_hdr := Some (dg_frames d)\<rparr>
                 in if dg_trunc d
                    then Fail (Bug ''nl_get_reply: got truncated reply which should be impossible'')
                    else nl_get_reply_inspect s1 (dg_frames d))
      | Some cur \<Rightarrow> nl_get_reply_inspect s cur)"

text \<open>\<^verbatim>\<open>nl_get_reply\<close>: the loop. \<open>None\<close> is a loop that never ends.\<close>

partial_function (option) nl_get_reply ::
  "('t, 'r) nl_sync \<Rightarrow> (fatal + 'r nlmsg \<times> ('t, 'r) nl_sync) option" where
  "nl_get_reply s =
     (case nl_get_reply_turn s of
        Return h s' \<Rightarrow> Some (Inr (h, s'))
      | Continue s' \<Rightarrow> nl_get_reply s'
      | Fail e \<Rightarrow> Some (Inl e))"

text \<open>\<^verbatim>\<open>nl_error\<close>: the code of an \<^verbatim>\<open>NLMSG_ERROR\<close> message, negated, with what it logs.\<close>

record nlmsgerr =
  nlerr_error :: u32

definition ENOBUFS :: int where "ENOBUFS = 105"

definition nl_error :: "nlmsgerr nlmsg \<Rightarrow> log_entry list \<times> int" where
  "nl_error h =
     (if unat (nlmsg_len h) < NLMSG_LENGTH sizeof_nlmsgerr
      then ([(L_WARN, ''Netlink: Truncated error message received'')], ENOBUFS)
      else
        let ec = sint (- nlerr_error (nlmsg_data h))
        in (if ec \<noteq> 0 then [(L_WARN, ''Netlink: %s'')] else [], ec))"

text \<open>\<^verbatim>\<open>nl_exchange\<close>: send, then take replies until one is an \<^verbatim>\<open>NLMSG_ERROR\<close>.\<close>

partial_function (option) nl_exchange_wait ::
  "('t, nlmsgerr) nl_sync \<Rightarrow> (fatal + nlmsgerr nlmsg \<times> ('t, nlmsgerr) nl_sync) option" where
  "nl_exchange_wait s =
     Option.bind (nl_get_reply s) (\<lambda>r.
       case r of
         Inl e \<Rightarrow> Some (Inl e)
       | Inr (h, s') \<Rightarrow>
           if nlmsg_type h = NLMSG_ERROR then Some (Inr (h, s'))
           else nl_exchange_wait
                  (s'\<lparr>nl_log := nl_log s' @
                        [(L_WARN, ''nl_exchange: Unexpected reply received'')]\<rparr>))"

definition nl_exchange ::
  "'t nlmsg \<Rightarrow> ('t, nlmsgerr) nl_sync \<Rightarrow> (fatal + int \<times> ('t, nlmsgerr) nl_sync) option" where
  "nl_exchange pkt s =
     (case nl_send pkt s of
        Inl e \<Rightarrow> Some (Inl e)
      | Inr s1 \<Rightarrow>
          Option.bind (nl_exchange_wait s1) (\<lambda>r.
            case r of
              Inl e \<Rightarrow> Some (Inl e)
            | Inr (h, s2) \<Rightarrow>
                (case nl_error h of
                   (lg, ec) \<Rightarrow> Some (Inr (ec, s2\<lparr>nl_log := nl_log s2 @ lg\<rparr>)))))"

subsection \<open>Netlink attributes\<close>

text \<open>\<^verbatim>\<open>nl_checkin\<close>: the static \<^verbatim>\<open>nl_attr_len\<close> is returned with the pointer to the body.
  The difference is computed in unsigned 32-bit arithmetic and stored in an \<^verbatim>\<open>int\<close>.\<close>

definition nl_checkin :: "'b nlmsg \<Rightarrow> nat \<Rightarrow> log_entry list \<times> (int \<times> 'b) option" where
  "nl_checkin h lsize =
     (let nl_attr_len = sint (nlmsg_len h - of_nat (NLMSG_LENGTH lsize))
      in if nl_attr_len < 0
         then ([(L_ERR, ''nl_checkin: underrun by %d bytes'')], None)
         else ([], Some (nl_attr_len, nlmsg_data h)))"

text \<open>The \<^verbatim>\<open>while (RTA_OK(a, nl_attr_len))\<close> loop of \<^verbatim>\<open>nl_parse_attrs\<close>; \<^verbatim>\<open>RTA_NEXT\<close>
  takes the aligned length off \<^verbatim>\<open>nl_attr_len\<close> and moves to the next header. Behind the
  last header there is nothing that \<^verbatim>\<open>RTA_OK\<close> accepts. The table \<^verbatim>\<open>k\<close> is a list of
  \<open>kmax\<close> pointers.\<close>

fun nl_parse_attrs_walk ::
  "rtattr list \<Rightarrow> int \<Rightarrow> nat \<Rightarrow> rtattr option list \<Rightarrow> int \<times> rtattr option list" where
  "nl_parse_attrs_walk [] nl_attr_len kmax k = (nl_attr_len, k)"
| "nl_parse_attrs_walk (a # rest) nl_attr_len kmax k =
     (if RTA_OK a nl_attr_len
      then nl_parse_attrs_walk rest (nl_attr_len - RTA_ALIGN (uint (rta_len a))) kmax
             (if unat (rta_type a) < kmax then k[unat (rta_type a) := Some a] else k)
      else (nl_attr_len, k))"

text \<open>\<^verbatim>\<open>nl_parse_attrs\<close>, with \<open>kmax\<close> for \<^verbatim>\<open>ksize / sizeof(struct rtattr *)\<close>, the number
  of entries of the caller's array.\<close>

definition nl_parse_attrs ::
  "rtattr list \<Rightarrow> int \<Rightarrow> nat \<Rightarrow> log_entry list \<times> bool \<times> rtattr option list" where
  "nl_parse_attrs a nl_attr_len kmax =
     (case nl_parse_attrs_walk a nl_attr_len kmax (replicate kmax None) of
        (len, k) \<Rightarrow>
          if len \<noteq> 0 then ([(L_ERR, ''nl_parse_attrs: remnant of size %d'')], False, k)
          else ([], True, k))"

text \<open>\<^verbatim>\<open>memcpy\<close> between four bytes and a \<^verbatim>\<open>u32\<close>, in the byte order of the host, which
  is taken to be little-endian (i386).\<close>

definition get_u32 :: "byte list \<Rightarrow> u32" where
  "get_u32 bs = foldr (\<lambda>b w. ucast b OR push_bit 8 w) (take 4 bs) 0"

definition put_u32 :: "u32 \<Rightarrow> byte list" where
  "put_u32 w = [ucast w, ucast (drop_bit 8 w), ucast (drop_bit 16 w), ucast (drop_bit 24 w)]"

text \<open>Modelled from the spec: \<^verbatim>\<open>lib/ipv4.h\<close> is not part of the sources at hand. An
  \<^verbatim>\<open>ip_addr\<close> is a 32-bit IPv4 address kept in host byte order, \<^verbatim>\<open>IPA_NONE\<close> is the
  unset address, \<^verbatim>\<open>ipa_ntoh\<close> and \<^verbatim>\<open>ipa_hton\<close> convert between network and host byte
  order (section 4.2, 4.5), \<^verbatim>\<open>ipa_mkmask\<close> is the netmask of a prefix length and
  \<^verbatim>\<open>ipa_and\<close> the bitwise conjunction (section 4.5: \<open>prefix = local & netmask(prefix_len)\<close>).\<close>

type_synonym ip_addr = u32

definition IPA_NONE :: ip_addr where "IPA_NONE = 0"

definition ipa_ntoh :: "ip_addr \<Rightarrow> ip_addr" where
  "ipa_ntoh x = get_u32 (rev (put_u32 x))"

definition ipa_hton :: "ip_addr \<Rightarrow> ip_addr" where
  "ipa_hton x = get_u32 (rev (put_u32 x))"

definition ipa_mkmask :: "nat \<Rightarrow> ip_addr" where
  "ipa_mkmask n = NOT (mask (32 - n))"

definition ipa_and :: "ip_addr \<Rightarrow> ip_addr \<Rightarrow> ip_addr" where
  "ipa_and a b = a AND b"

text \<open>\<^verbatim>\<open>nl_add_attr_u32\<close> and \<^verbatim>\<open>nl_add_attr_ipa\<close>: the new attribute is written at
  \<^verbatim>\<open>NLMSG_ALIGN(h->nlmsg_len)\<close>, that is behind the attributes written so far.\<close>

definition nl_add_attr_u32 :: "'b nlmsg \<Rightarrow> nat \<Rightarrow> int \<Rightarrow> u32 \<Rightarrow> fatal + 'b nlmsg" where
  "nl_add_attr_u32 h maxsize code data =
     (let len = (of_nat (RTA_LENGTH 4) :: u32)
      in if NLMSG_ALIGN (nlmsg_len h) + len > of_nat maxsize
         then Inl (Bug ''nl_add_attr32: packet buffer overflow'')
         else Inr (h\<lparr>nlmsg_attrs := nlmsg_attrs h @
                       [\<lparr>rta_len = ucast len, rta_type = word_of_int code,
                         rta_data = put_u32 data\<rparr>],
                     nlmsg_len := NLMSG_ALIGN (nlmsg_len h) + len\<rparr>))"

definition nl_add_attr_ipa :: "'b nlmsg \<Rightarrow> nat \<Rightarrow> int \<Rightarrow> ip_addr \<Rightarrow> fatal + 'b nlmsg" where
  "nl_add_attr_ipa h maxsize code ipa =
     (let len = (of_nat (RTA_LENGTH 4) :: u32)
      in if NLMSG_ALIGN (nlmsg_len h) + len > of_nat maxsize
         then Inl (Bug ''nl_add_attr_ipa: packet buffer overflow'')
         else Inr (h\<lparr>nlmsg_attrs := nlmsg_attrs h @
                       [\<lparr>rta_len = ucast len, rta_type = word_of_int code,
                         rta_data = put_u32 (ipa_hton ipa)\<rparr>],
                     nlmsg_len := NLMSG_ALIGN (nlmsg_len h) + len\<rparr>))"

subsection \<open>Scanning of interfaces\<close>

text \<open>The fields of \<^verbatim>\<open>struct iface\<close> (\<^verbatim>\<open>nest/iface.h\<close>) that \<^verbatim>\<open>netlink.c\<close> reads or writes.
  A name is kept without its terminating zero byte.\<close>

record iface =
  if_name :: "byte list"
  if_flags :: u32
  if_mtu :: u32
  if_index :: u32
  if_ip :: ip_addr
  if_prefix :: ip_addr
  if_pxlen :: u32
  if_brd :: ip_addr
  if_opposite :: ip_addr

text \<open>The interface flags of \<^verbatim>\<open>nest/iface.h\<close>. The header is not part of the sources at
  hand, so their values are a parameter of everything that uses them.\<close>

record if_flag_values =
  IF_LINK_UP :: u32
  IF_UNNUMBERED :: u32
  IF_MULTICAST :: u32
  IF_LOOPBACK :: u32
  IF_IGNORE :: u32
  IF_BROADCAST :: u32
  IF_ADMIN_DOWN :: u32

text \<open>\<^verbatim>\<open>bzero(&f, sizeof(f))\<close>\<close>

definition iface_bzero :: iface where
  "iface_bzero = \<lparr>if_name = [], if_flags = 0, if_mtu = 0, if_index = 0, if_ip = 0,
     if_prefix = 0, if_pxlen = 0, if_brd = 0, if_opposite = 0\<rparr>"

text \<open>\<^verbatim>\<open>strncpy(f.name, src, sizeof(f.name)-1)\<close> into a name whose last byte is zero:
  the bytes of \<open>src\<close> before its first zero byte, at most \<open>n\<close> of them. Here \<open>src\<close> is
  the payload of the attribute; for a payload of less than \<open>n\<close> bytes without a zero
  byte the code reads on behind the payload, which is left out.\<close>

definition strncpy_name :: "byte list \<Rightarrow> nat \<Rightarrow> byte list" where
  "strncpy_name src n = take n (takeWhile (\<lambda>b. b \<noteq> 0) src)"

text \<open>Modelled from the spec: \<^verbatim>\<open>nest/iface.h\<close> is not part of the sources at hand. The
  name of an interface is a short byte string (section 3); \<^verbatim>\<open>sizeof(f.name)\<close> is taken to
  be 16, the size of an interface name of the kernel.\<close>

definition sizeof_iface_name :: nat where "sizeof_iface_name = 16"

record ifinfomsg =
  ifi_family :: byte
  ifi_type :: u16
  ifi_index :: u32
  ifi_flags :: u32
  ifi_change :: u32

text \<open>Lines 315 to 324 of \<^verbatim>\<open>nl_parse_link\<close>: \<^verbatim>\<open>f.flags = 0\<close> and the four tests of the
  kernel's flags \<^verbatim>\<open>fl\<close>.\<close>

definition nl_parse_link_flags :: "if_flag_values \<Rightarrow> u32 \<Rightarrow> iface \<Rightarrow> iface" where
  "nl_parse_link_flags c fl f0 =
     (let f = f0\<lparr>if_flags := 0\<rparr>;
          f = (if fl AND IFF_UP \<noteq> 0 then f\<lparr>if_flags := if_flags f OR IF_LINK_UP c\<rparr> else f);
          f = (if fl AND IFF_POINTOPOINT \<noteq> 0
               then f\<lparr>if_flags := if_flags f OR (IF_UNNUMBERED c OR IF_MULTICAST c)\<rparr> else f);
          f = (if fl AND IFF_LOOPBACK \<noteq> 0
               then f\<lparr>if_flags := if_flags f OR (IF_LOOPBACK c OR IF_IGNORE c)\<rparr> else f);
          f = (if fl AND IFF_BROADCAST \<noteq> 0
               then f\<lparr>if_flags := if_flags f OR (IF_BROADCAST c OR IF_MULTICAST c)\<rparr> else f)
      in f)"

text \<open>\<^verbatim>\<open>nl_parse_link\<close>. The result is the log and the record given to \<^verbatim>\<open>if_update\<close>,
  if any.\<close>

definition nl_parse_link ::
  "if_flag_values \<Rightarrow> (u32 \<Rightarrow> iface option) \<Rightarrow> ifinfomsg nlmsg \<Rightarrow> bool \<Rightarrow>
   log_entry list \<times> iface option" where
  "nl_parse_link c if_find_by_index h scan =
     (let new = (nlmsg_type h = RTM_NEWLINK) in
      case nl_checkin h sizeof_ifinfomsg of
        (lg, None) \<Rightarrow> (lg, None)
      | (lg, Some (nl_attr_len, i)) \<Rightarrow>
          (case nl_parse_attrs (nlmsg_attrs h) nl_attr_len (IFLA_STATS + 1) of
             (lg1, ok, a) \<Rightarrow>
               if \<not> ok then (lg @ lg1, None)
               else
                 (case (a ! IFLA_IFNAME, a ! IFLA_MTU) of
                    (Some a_ifname, Some a_mtu) \<Rightarrow>
                      if RTA_PAYLOAD a_ifname < 2 \<or> RTA_PAYLOAD a_mtu \<noteq> 4
                      then (lg @ lg1 @ [(L_ERR, ''nl_parse_link: Malformed message received'')],
                            None)
                      else
                        let mtu = get_u32 (rta_data a_mtu);
                            ifi = if_find_by_index (ifi_index i)
                        in if \<not> new then
                             (case ifi of
                                Some f0 \<Rightarrow>
                                  if \<not> scan
                                  then (lg @ lg1,
                                        Some (f0\<lparr>if_flags := if_flags f0 OR IF_ADMIN_DOWN c\<rparr>))
                                  else (lg @ lg1, None)
                              | None \<Rightarrow> (lg @ lg1, None))
                           else
                             let f = (case ifi of
                                        Some f0 \<Rightarrow> f0
                                      | None \<Rightarrow> iface_bzero\<lparr>if_index := ifi_index i\<rparr>);
                                 f = f\<lparr>if_name :=
                                        strncpy_name (rta_data a_ifname) (sizeof_iface_name - 1)\<rparr>;
                                 f = f\<lparr>if_mtu := mtu\<rparr>;
                                 f = nl_parse_link_flags c (ifi_flags i) f
                             in (lg @ lg1, Some f)
                  | _ \<Rightarrow>
                      (lg @ lg1 @ [(L_ERR, ''nl_parse_link: Malformed message received'')],
                       None))))"

record ifaddrmsg =
  ifa_family :: byte
  ifa_prefixlen :: byte
  ifa_flags :: byte
  ifa_scope :: byte
  ifa_index :: u32

text \<open>Lines 338 to 360 of \<^verbatim>\<open>nl_parse_addr\<close>: the checks a message passes before its
  prefix length is looked at. A message that passes gives its body, its \<^verbatim>\<open>IFA_ADDRESS\<close>,
  \<^verbatim>\<open>IFA_LOCAL\<close> and \<^verbatim>\<open>IFA_BROADCAST\<close> attributes and the interface found.\<close>

definition nl_parse_addr_checks ::
  "(u32 \<Rightarrow> iface option) \<Rightarrow> ifaddrmsg nlmsg \<Rightarrow>
   log_entry list \<times> (ifaddrmsg \<times> rtattr \<times> rtattr \<times> rtattr option \<times> iface) option" where
  "nl_parse_addr_checks if_find_by_index h =
     (case nl_checkin h sizeof_ifaddrmsg of
        (lg, None) \<Rightarrow> (lg, None)
      | (lg, Some (nl_attr_len, i)) \<Rightarrow>
          (case nl_parse_attrs (nlmsg_attrs h) nl_attr_len (IFA_ANYCAST + 1) of
             (lg1, ok, a) \<Rightarrow>
               if \<not> ok then (lg @ lg1, None)
               else if ifa_family i \<noteq> AF_INET then (lg @ lg1, None)
               else
                 (case (a ! IFA_ADDRESS, a ! IFA_LOCAL) of
                    (Some a_address, Some a_local) \<Rightarrow>
                      if RTA_PAYLOAD a_address \<noteq> 4 \<or> RTA_PAYLOAD a_local \<noteq> 4 \<or>
                         (case a ! IFA_BROADCAST of
                            Some a_broadcast \<Rightarrow> RTA_PAYLOAD a_broadcast \<noteq> 4
                          | None \<Rightarrow> False)
                      then (lg @ lg1 @ [(L_ERR, ''nl_parse_addr: Malformed message received'')],
                            None)
                      else if ifa_flags i AND IFA_F_SECONDARY \<noteq> 0 then (lg @ lg1, None)
                      else
                        (case if_find_by_index (ifa_index i) of
                           None \<Rightarrow>
                             (lg @ lg1 @
                              [(L_ERR, ''KRT: Received address message for unknown interface %d'')],
                              None)
                         | Some ifi \<Rightarrow>
                             (lg @ lg1, Some (i, a_address, a_local, a ! IFA_BROADCAST, ifi)))
                  | _ \<Rightarrow>
                      (lg @ lg1 @ [(L_ERR, ''nl_parse_addr: Malformed message received'')],
                       None))))"

text \<open>Lines 361 to 395 of \<^verbatim>\<open>nl_parse_addr\<close>: from the copy \<^verbatim>\<open>f\<close> of the interface to
  \<^verbatim>\<open>if_update(&f)\<close>.\<close>

definition nl_parse_addr_update ::
  "if_flag_values \<Rightarrow> bool \<Rightarrow> ifaddrmsg \<Rightarrow> rtattr \<Rightarrow> rtattr \<Rightarrow> rtattr option \<Rightarrow> iface \<Rightarrow>
   log_entry list \<times> iface" where
  "nl_parse_addr_update c new0 i a_address a_local a_broadcast ifi =
     (let f = ifi;
          bad = (ifa_prefixlen i > 32 \<or> ifa_prefixlen i = 31 \<or>
                 (if_flags f AND IF_UNNUMBERED c \<noteq> 0 \<and> ifa_prefixlen i \<noteq> 32));
          lg = (if bad then [(L_ERR, ''KRT: Invalid prefix length for interface %s: %d'')]
                else []);
          new = (if bad then False else new0);
          f = f\<lparr>if_ip := IPA_NONE, if_brd := IPA_NONE, if_opposite := IPA_NONE\<rparr>
      in if \<not> new then (lg, f\<lparr>if_pxlen := 0\<rparr>)
         else
           let f = f\<lparr>if_ip := ipa_ntoh (get_u32 (rta_data a_local))\<rparr>;
               f = f\<lparr>if_pxlen := ucast (ifa_prefixlen i)\<rparr>;
               f = (if if_flags f AND IF_UNNUMBERED c \<noteq> 0 then
                      let opp = ipa_ntoh (get_u32 (rta_data a_address))
                      in f\<lparr>if_brd := opp, if_opposite := opp\<rparr>
                    else
                      (case a_broadcast of
                         Some a_brd \<Rightarrow>
                           if if_flags f AND IF_BROADCAST c \<noteq> 0
                           then f\<lparr>if_brd := ipa_ntoh (get_u32 (rta_data a_brd))\<rparr>
                           else f
                       | None \<Rightarrow> f));
               f = f\<lparr>if_prefix := ipa_and (if_ip f) (ipa_mkmask (unat (if_pxlen f)))\<rparr>
           in (lg, f))"

text \<open>\<^verbatim>\<open>nl_parse_addr\<close>. The result is the log and the record given to \<^verbatim>\<open>if_update\<close>,
  if any.\<close>

definition nl_parse_addr ::
  "if_flag_values \<Rightarrow> (u32 \<Rightarrow> iface option) \<Rightarrow> ifaddrmsg nlmsg \<Rightarrow>
   log_entry list \<times> iface option" where
  "nl_parse_addr c if_find_by_index h =
     (let new = (nlmsg_type h = RTM_NEWADDR) in
      case nl_parse_addr_checks if_find_by_index h of
        (lg, None) \<Rightarrow> (lg, None)
      | (lg, Some (i, a_address, a_local, a_broadcast, ifi)) \<Rightarrow>
          (case nl_parse_addr_update c new i a_address a_local a_broadcast ifi of
             (lg1, f) \<Rightarrow> (lg @ lg1, Some f)))"

subsection \<open>Routes\<close>

text \<open>Modelled from the spec: \<^verbatim>\<open>nest/route.h\<close> and \<^verbatim>\<open>lib/krt.h\<close> are not part of the
  sources at hand. A route record (section 3) has a destination prefix with its length,
  a destination type, a gateway, an outgoing interface, a source tag, a scope and a TOS;
  a pointer to an interface is \<open>None\<close> when it is \<^verbatim>\<open>NULL\<close>. The enumerations have the
  values \<^verbatim>\<open>netlink.c\<close> names and one more for every other value. The pointers
  \<^verbatim>\<open>ra.proto\<close> (always \<^verbatim>\<open>&p->p\<close>) and \<^verbatim>\<open>ra.attrs\<close> (always \<^verbatim>\<open>NULL\<close>) are left out.
  \<^verbatim>\<open>net_get\<close> gives the slot of the routing table for a prefix and a length (section 6.5),
  \<^verbatim>\<open>rte_get_temp\<close> a route with the given attributes.\<close>

datatype rtd = RTD_ROUTER | RTD_DEVICE | RTD_BLACKHOLE | RTD_UNREACHABLE | RTD_PROHIBIT
  | RTD_OTHER

datatype rtc = RTC_UNICAST | RTC_OTHER

datatype rts = RTS_INHERIT | RTS_DEVICE | RTS_OTHER

datatype rt_scope = SCOPE_UNIVERSE | SCOPE_OTHER

datatype krt_src = KRT_SRC_BIRD | KRT_SRC_REDIRECT | KRT_SRC_ALIEN | KRT_SRC_UNSET

record rta =
  ra_source :: rts
  ra_scope :: rt_scope
  ra_cast :: rtc
  ra_dest :: rtd
  ra_tos :: byte
  ra_flags :: byte
  ra_aflags :: byte
  ra_from :: ip_addr
  ra_gw :: ip_addr
  ra_iface :: "iface option"

record net =
  n_prefix :: ip_addr
  n_pxlen :: byte

record rte =
  rte_net :: net
  rte_attrs :: rta
  rte_krt_src :: krt_src

definition net_get :: "ip_addr \<Rightarrow> byte \<Rightarrow> net" where
  "net_get dst len = \<lparr>n_prefix = dst, n_pxlen = len\<rparr>"

definition rte_get_temp :: "rta \<Rightarrow> net \<Rightarrow> rte" where
  "rte_get_temp ra n = \<lparr>rte_net = n, rte_attrs = ra, rte_krt_src = KRT_SRC_UNSET\<rparr>"

text \<open>A neighbor (\<^verbatim>\<open>nest/iface.h\<close>), of which \<^verbatim>\<open>netlink.c\<close> reads the pointer
  \<^verbatim>\<open>ng->iface\<close>.\<close>

record neighbor =
  neigh_iface :: "iface option"

record rtmsg =
  rtm_family :: byte
  rtm_dst_len :: byte
  rtm_src_len :: byte
  rtm_tos :: byte
  rtm_table :: byte
  rtm_protocol :: byte
  rtm_scope :: byte
  rtm_type :: byte
  rtm_flags :: u32

text \<open>\<^verbatim>\<open>krt_capable\<close>\<close>

definition krt_capable :: "rte \<Rightarrow> bool" where
  "krt_capable e =
     (let a = rte_attrs e in
      if ra_cast a \<noteq> RTC_UNICAST then False
      else (case ra_dest a of
              RTD_ROUTER \<Rightarrow> True
            | RTD_DEVICE \<Rightarrow> True
            | RTD_BLACKHOLE \<Rightarrow> True
            | RTD_UNREACHABLE \<Rightarrow> True
            | RTD_PROHIBIT \<Rightarrow> True
            | _ \<Rightarrow> False))"

text \<open>Lines 461 to 496 of \<^verbatim>\<open>nl_send_route\<close>: the request \<^verbatim>\<open>r\<close> as it is when
  \<^verbatim>\<open>nl_exchange\<close> is called. \<^verbatim>\<open>sizeof(r)\<close> is the header, the \<^verbatim>\<open>struct rtmsg\<close> and 128
  bytes.\<close>

definition sizeof_route_req :: nat where
  "sizeof_route_req =
     c_sizeof_struct [(sizeof_nlmsghdr, c_alignof_struct nlmsghdr_members),
                      (sizeof_rtmsg, 4), (128, 1)]"

definition nl_route_req :: "rte \<Rightarrow> bool \<Rightarrow> fatal + rtmsg nlmsg" where
  "nl_route_req e new =
     (let n = rte_net e; a = rte_attrs e;
          r = \<lparr>nlmsg_len = of_nat (NLMSG_LENGTH sizeof_rtmsg),
               nlmsg_type = (if new then RTM_NEWROUTE else RTM_DELROUTE),
               nlmsg_flags = NLM_F_REQUEST OR NLM_F_ACK OR
                 (if new then NLM_F_CREATE OR NLM_F_REPLACE else 0),
               nlmsg_seq = 0, nlmsg_pid = 0,
               nlmsg_data = \<lparr>rtm_family = AF_INET, rtm_dst_len = n_pxlen n, rtm_src_len = 0,
                 rtm_tos = 0, rtm_table = RT_TABLE_MAIN, rtm_protocol = RTPROT_BIRD,
                 rtm_scope = RT_SCOPE_UNIVERSE, rtm_type = 0, rtm_flags = 0\<rparr>,
               nlmsg_attrs = []\<rparr>
      in case nl_add_attr_ipa r sizeof_route_req (int RTA_DST) (n_prefix n) of
           Inl x \<Rightarrow> Inl x
         | Inr r \<Rightarrow>
             (case ra_dest a of
                RTD_ROUTER \<Rightarrow>
                  nl_add_attr_ipa (r\<lparr>nlmsg_data := (nlmsg_data r)\<lparr>rtm_type := RTN_UNICAST\<rparr>\<rparr>)
                    sizeof_route_req (int RTA_GATEWAY) (ra_gw a)
              | RTD_DEVICE \<Rightarrow>
                  (case ra_iface a of
                     None \<Rightarrow> Inl Null_deref
                   | Some ifa \<Rightarrow>
                       nl_add_attr_u32
                         (r\<lparr>nlmsg_data := (nlmsg_data r)\<lparr>rtm_type := RTN_UNICAST\<rparr>\<rparr>)
                         sizeof_route_req (int RTA_OIF) (if_index ifa))
              | RTD_BLACKHOLE \<Rightarrow>
                  Inr (r\<lparr>nlmsg_data := (nlmsg_data r)\<lparr>rtm_type := RTN_BLACKHOLE\<rparr>\<rparr>)
              | RTD_UNREACHABLE \<Rightarrow>
                  Inr (r\<lparr>nlmsg_data := (nlmsg_data r)\<lparr>rtm_type := RTN_UNREACHABLE\<rparr>\<rparr>)
              | RTD_PROHIBIT \<Rightarrow>
                  Inr (r\<lparr>nlmsg_data := (nlmsg_data r)\<lparr>rtm_type := RTN_PROHIBIT\<rparr>\<rparr>)
              | RTD_OTHER \<Rightarrow> Inl (Bug ''krt_capable inconsistent with nl_send_route'')))"

text \<open>\<^verbatim>\<open>nl_send_route\<close>: build the request and exchange it; the error code that
  \<^verbatim>\<open>nl_exchange\<close> returns is dropped.\<close>

definition nl_send_route ::
  "rte \<Rightarrow> bool \<Rightarrow> (rtmsg, nlmsgerr) nl_sync \<Rightarrow> (fatal + (rtmsg, nlmsgerr) nl_sync) option" where
  "nl_send_route e new s =
     (case nl_route_req e new of
        Inl x \<Rightarrow> Some (Inl x)
      | Inr r \<Rightarrow>
          Option.bind (nl_exchange r s) (\<lambda>res.
            case res of
              Inl x \<Rightarrow> Some (Inl x)
            | Inr (ec, s') \<Rightarrow> Some (Inr s')))"

text \<open>\<^verbatim>\<open>krt_temp_iface\<close>: the list \<^verbatim>\<open>p->scan.temp_ifs\<close> is passed and returned.\<close>

definition krt_temp_iface ::
  "(u32 \<Rightarrow> iface option) \<Rightarrow> iface list \<Rightarrow> u32 \<Rightarrow> iface \<times> iface list" where
  "krt_temp_iface if_find_by_index temp_ifs index =
     (case find (\<lambda>i. if_index i = index) temp_ifs of
        Some i \<Rightarrow> (i, temp_ifs)
      | None \<Rightarrow>
          let i = iface_bzero;
              i = (case if_find_by_index index of
                     Some j \<Rightarrow> i\<lparr>if_name := if_name j\<rparr>
                   | None \<Rightarrow> i\<lparr>if_name := [0x3F]\<rparr>);
              i = i\<lparr>if_index := index\<rparr>
          in (i, temp_ifs @ [i]))"

text \<open>What \<^verbatim>\<open>nl_parse_route\<close> hands to the routing table: \<^verbatim>\<open>krt_got_route(p, e)\<close> or
  \<^verbatim>\<open>krt_got_route_async(p, e, new)\<close>.\<close>

datatype sink = Krt_got_route rte | Krt_got_route_async rte bool

fun sink_rte :: "sink \<Rightarrow> rte" where
  "sink_rte (Krt_got_route e) = e"
| "sink_rte (Krt_got_route_async e new) = e"

text \<open>Lines 594 to 612 of \<^verbatim>\<open>nl_parse_route\<close>: the \<^verbatim>\<open>switch (i->rtm_protocol)\<close>. \<open>None\<close>
  is a \<^verbatim>\<open>return\<close>.\<close>

definition nl_route_src :: "byte \<Rightarrow> bool \<Rightarrow> krt_src option" where
  "nl_route_src protocol scan =
     (if protocol = RTPROT_REDIRECT then Some KRT_SRC_REDIRECT
      else if protocol = RTPROT_KERNEL then None
      else if protocol = RTPROT_BIRD then (if \<not> scan then None else Some KRT_SRC_BIRD)
      else Some KRT_SRC_ALIEN)"

text \<open>Lines 625 to 665 of \<^verbatim>\<open>nl_parse_route\<close>: the \<^verbatim>\<open>switch (i->rtm_type)\<close>. The result is
  the log, the list of temporary interfaces and the attributes \<^verbatim>\<open>ra\<close>, or \<open>None\<close> for a
  \<^verbatim>\<open>return\<close>.\<close>

definition nl_route_dest ::
  "(ip_addr \<Rightarrow> neighbor option) \<Rightarrow> (u32 \<Rightarrow> iface option) \<Rightarrow> iface list \<Rightarrow>
   byte \<Rightarrow> rtattr option \<Rightarrow> u32 \<Rightarrow> rta \<Rightarrow> log_entry list \<times> iface list \<times> rta option" where
  "nl_route_dest neigh_find if_find_by_index temp_ifs type a_gateway oif ra =
     (if type = RTN_UNICAST then
        if oif = NOT 0
        then ([(L_ERR, ''KRT: Mysterious route with no OIF (%I/%d)'')], temp_ifs, None)
        else
          (case a_gateway of
             Some g \<Rightarrow>
               let ra = ra\<lparr>ra_dest := RTD_ROUTER\<rparr>;
                   ra = ra\<lparr>ra_gw := ipa_ntoh (get_u32 (rta_data g))\<rparr>
               in (case neigh_find (ra_gw ra) of
                     Some ng \<Rightarrow> ([], temp_ifs, Some (ra\<lparr>ra_iface := neigh_iface ng\<rparr>))
                   | None \<Rightarrow>
                       ([(L_WARN, ''Kernel told us to use non-neighbor %I for %I/%d'')],
                        temp_ifs, Some ra))
           | None \<Rightarrow>
               (case krt_temp_iface if_find_by_index temp_ifs oif of
                  (ifa, temp_ifs') \<Rightarrow>
                    ([], temp_ifs', Some (ra\<lparr>ra_dest := RTD_DEVICE, ra_iface := Some ifa\<rparr>))))
      else if type = RTN_BLACKHOLE then ([], temp_ifs, Some (ra\<lparr>ra_dest := RTD_BLACKHOLE\<rparr>))
      else if type = RTN_UNREACHABLE then ([], temp_ifs, Some (ra\<lparr>ra_dest := RTD_UNREACHABLE\<rparr>))
      else if type = RTN_PROHIBIT then ([], temp_ifs, Some (ra\<lparr>ra_dest := RTD_PROHIBIT\<rparr>))
      else ([], temp_ifs, None))"

text \<open>Lines 615 to 623 of \<^verbatim>\<open>nl_parse_route\<close>: the attributes \<^verbatim>\<open>ra\<close> before the
  \<^verbatim>\<open>switch (i->rtm_type)\<close>, which sets \<^verbatim>\<open>ra.dest\<close> on every path that goes on.\<close>

definition nl_route_ra :: rta where
  "nl_route_ra =
     \<lparr>ra_source = RTS_INHERIT, ra_scope = SCOPE_UNIVERSE, ra_cast = RTC_UNICAST,
      ra_dest = RTD_OTHER, ra_tos = 0, ra_flags = 0, ra_aflags = 0, ra_from = IPA_NONE,
      ra_gw = IPA_NONE, ra_iface = None\<rparr>"

text \<open>An optional attribute whose payload has not the size \<open>n\<close>:
  \<^verbatim>\<open>a[X] && RTA_PAYLOAD(a[X]) != n\<close>.\<close>

definition rta_size_differs :: "rtattr option \<Rightarrow> int \<Rightarrow> bool" where
  "rta_size_differs x n = (case x of Some a \<Rightarrow> RTA_PAYLOAD a \<noteq> n | None \<Rightarrow> False)"

text \<open>\<^verbatim>\<open>nl_parse_route\<close>. The result is the log, the list of temporary interfaces and the
  route handed to the routing table, if any.\<close>

definition nl_parse_route ::
  "(ip_addr \<Rightarrow> neighbor option) \<Rightarrow> (u32 \<Rightarrow> iface option) \<Rightarrow> iface list \<Rightarrow>
   rtmsg nlmsg \<Rightarrow> bool \<Rightarrow> log_entry list \<times> iface list \<times> sink option" where
  "nl_parse_route neigh_find if_find_by_index temp_ifs h scan =
     (let new = (nlmsg_type h = RTM_NEWROUTE) in
      case nl_checkin h sizeof_rtmsg of
        (lg, None) \<Rightarrow> (lg, temp_ifs, None)
      | (lg, Some (nl_attr_len, i)) \<Rightarrow>
          (case nl_parse_attrs (nlmsg_attrs h) nl_attr_len (RTA_CACHEINFO + 1) of
             (lg1, ok, a) \<Rightarrow>
               if \<not> ok then (lg @ lg1, temp_ifs, None)
               else if rtm_family i \<noteq> AF_INET then (lg @ lg1, temp_ifs, None)
               else if rta_size_differs (a ! RTA_DST) 4 \<or> rta_size_differs (a ! RTA_OIF) 4 \<or>
                       rta_size_differs (a ! RTA_GATEWAY) 4
               then (lg @ lg1 @ [(L_ERR, ''nl_parse_route: Malformed message received'')],
                     temp_ifs, None)
               else if rtm_table i \<noteq> RT_TABLE_MAIN then (lg @ lg1, temp_ifs, None)
               else if rtm_tos i \<noteq> 0 then (lg @ lg1, temp_ifs, None)
               else if scan \<and> \<not> new then (lg @ lg1, temp_ifs, None)
               else
                 let dst = (case a ! RTA_DST of
                              Some x \<Rightarrow> ipa_ntoh (get_u32 (rta_data x))
                            | None \<Rightarrow> IPA_NONE);
                     oif = (case a ! RTA_OIF of
                              Some x \<Rightarrow> get_u32 (rta_data x)
                            | None \<Rightarrow> NOT 0)
                 in (case nl_route_src (rtm_protocol i) scan of
                       None \<Rightarrow> (lg @ lg1, temp_ifs, None)
                     | Some src \<Rightarrow>
                         let n = net_get dst (rtm_dst_len i);
                             ra = nl_route_ra
                         in (case nl_route_dest neigh_find if_find_by_index temp_ifs
                                     (rtm_type i) (a ! RTA_GATEWAY) oif ra of
                               (lg2, temp_ifs', None) \<Rightarrow> (lg @ lg1 @ lg2, temp_ifs', None)
                             | (lg2, temp_ifs', Some ra) \<Rightarrow>
                                 let e = (rte_get_temp ra n)\<lparr>rte_krt_src := src\<rparr>
                                 in (lg @ lg1 @ lg2, temp_ifs',
                                     Some (if scan then Krt_got_route e
                                           else Krt_got_route_async e new))))))"

section \<open>Notions used in the statements\<close>

text \<open>The cursor of the synchronous channel points at a complete message whose sequence
  number is not the one of the last request.\<close>

definition out_of_seq :: "('t, 'r) nl_sync \<Rightarrow> bool" where
  "out_of_seq s \<longleftrightarrow>
     (case nl_last_hdr s of
        Some (h # rest) \<Rightarrow> NLMSG_OK h (nl_last_size s) \<and> nlmsg_seq h \<noteq> nl_sync_seq s
      | _ \<Rightarrow> False)"

text \<open>Where a header returned by \<^verbatim>\<open>nl_get_reply\<close> comes from: the buffer the cursor
  pointed into when the call began, with nothing received in between, or a datagram of
  the kernel that a \<^verbatim>\<open>recvmsg\<close> of this call took from the queue.\<close>

definition from_cursor :: "('t, 'r) nl_sync \<Rightarrow> 'r nlmsg \<Rightarrow> ('t, 'r) nl_sync \<Rightarrow> bool" where
  "from_cursor s h s' \<longleftrightarrow>
     (\<exists>cur. nl_last_hdr s = Some cur \<and> h \<in> set cur \<and> rx_queue s' = rx_queue s)"

definition from_queue :: "('t, 'r) nl_sync \<Rightarrow> 'r nlmsg \<Rightarrow> ('t, 'r) nl_sync \<Rightarrow> bool" where
  "from_queue s h s' \<longleftrightarrow>
     (\<exists>ds d. rx_queue s = ds @ d # rx_queue s' \<and> dg_pid d = 0 \<and> h \<in> set (dg_frames d))"

text \<open>An attribute region that is filled by its attributes: every header has at least
  the length of a header, and the region is as long as the aligned lengths together.\<close>

definition rta_well_formed :: "rtattr list \<Rightarrow> bool" where
  "rta_well_formed as = list_all (\<lambda>a. sizeof_rtattr \<le> unat (rta_len a)) as"

definition rta_region_len :: "rtattr list \<Rightarrow> int" where
  "rta_region_len as = sum_list (map (\<lambda>a. RTA_ALIGN (uint (rta_len a))) as)"

text \<open>The last attribute with code \<open>c\<close> in wire order.\<close>

definition rta_last :: "nat \<Rightarrow> rtattr list \<Rightarrow> rtattr option" where
  "rta_last c as = find (\<lambda>a. unat (rta_type a) = c) (rev as)"

text \<open>A kernel that accepts the next request and acknowledges it at once: \<^verbatim>\<open>sendto\<close>
  does not fail, and the next datagram comes from the kernel, is not truncated and begins
  with a complete \<^verbatim>\<open>NLMSG_ERROR\<close> message that has the sequence number of that request.\<close>

definition kernel_acks :: "('t, nlmsgerr) nl_sync \<Rightarrow> bool" where
  "kernel_acks s \<longleftrightarrow>
     \<not> sendto_fails s \<and>
     (case rx_queue s of
        d # ds \<Rightarrow>
          0 \<le> dg_ret d \<and> dg_pid d = 0 \<and> \<not> dg_trunc d \<and>
          (case dg_frames d of
             h # rest \<Rightarrow>
               NLMSG_OK h (word_of_int (dg_ret d)) \<and> nlmsg_seq h = nl_sync_seq s + 1 \<and>
               nlmsg_type h = NLMSG_ERROR
           | [] \<Rightarrow> False)
      | [] \<Rightarrow> False)"

text \<open>The attribute table \<^verbatim>\<open>a\<close> that \<^verbatim>\<open>nl_parse_route\<close> builds for a message.\<close>

definition nl_route_table :: "rtmsg nlmsg \<Rightarrow> rtattr option list" where
  "nl_route_table h =
     (case nl_checkin h sizeof_rtmsg of
        (lg, Some (nl_attr_len, i)) \<Rightarrow>
          snd (snd (nl_parse_attrs (nlmsg_attrs h) nl_attr_len (RTA_CACHEINFO + 1)))
      | (lg, None) \<Rightarrow> [])"

section \<open>Sample inputs\<close>

text \<open>A daemon that knows no neighbor and no interface, and one that knows the
  interface with index 2.\<close>

definition no_neighbor :: "ip_addr \<Rightarrow> neighbor option" where
  "no_neighbor gw = None"

definition no_iface :: "u32 \<Rightarrow> iface option" where
  "no_iface idx = None"

text \<open>An assignment of seven distinct bits to the interface flags.\<close>

definition sample_flags :: if_flag_values where
  "sample_flags = \<lparr>IF_LINK_UP = 0x200, IF_UNNUMBERED = 0x4, IF_MULTICAST = 0x10,
     IF_LOOPBACK = 0x80, IF_IGNORE = 0x100, IF_BROADCAST = 0x8, IF_ADMIN_DOWN = 0x40\<rparr>"

definition ppp0 :: iface where
  "ppp0 = \<lparr>if_name = [0x70, 0x70, 0x70, 0x30], if_flags = 0x214, if_mtu = 1500, if_index = 2,
     if_ip = 0, if_prefix = 0, if_pxlen = 0, if_brd = 0, if_opposite = 0\<rparr>"

definition only_ppp0 :: "u32 \<Rightarrow> iface option" where
  "only_ppp0 idx = (if idx = 2 then Some ppp0 else None)"

text \<open>A reply of 20 bytes with the given sequence number, and the channel after a dump
  request with sequence number 5 when the kernel's answer is one datagram with the given
  replies.\<close>

definition reply_frame :: "u32 \<Rightarrow> byte nlmsg" where
  "reply_frame sq = \<lparr>nlmsg_len = 20, nlmsg_type = RTM_NEWLINK, nlmsg_flags = 2, nlmsg_seq = sq,
     nlmsg_pid = 0, nlmsg_data = 0, nlmsg_attrs = []\<rparr>"

definition dump_in_flight :: "byte nlmsg list \<Rightarrow> (byte, byte) nl_sync" where
  "dump_in_flight frames =
     \<lparr>nl_sync_seq = 5, nl_last_hdr = None, nl_last_size = 0, nl_log = [],
      rx_queue = [\<lparr>dg_ret = 20 * int (length frames), dg_pid = 0, dg_trunc = False,
                   dg_frames = frames\<rparr>],
      tx_sent = [], sendto_fails = False\<rparr>"

text \<open>The channel with a reply of sequence number 6 left over under the cursor, while the
  last request had number 5 and the kernel's next datagram holds another reply with
  number 6.\<close>

definition leftover_state :: "(byte, byte) nl_sync" where
  "leftover_state =
     \<lparr>nl_sync_seq = 5, nl_last_hdr = Some [reply_frame 6], nl_last_size = 20, nl_log = [],
      rx_queue = [\<lparr>dg_ret = 20, dg_pid = 0, dg_trunc = False,
                   dg_frames = [(reply_frame 6)\<lparr>nlmsg_type := NLMSG_DONE\<rparr>]\<rparr>],
      tx_sent = [], sendto_fails = False\<rparr>"

definition blank_req :: "byte nlmsg" where
  "blank_req = \<lparr>nlmsg_len = 0, nlmsg_type = 0, nlmsg_flags = 0, nlmsg_seq = 0, nlmsg_pid = 0,
     nlmsg_data = 0, nlmsg_attrs = []\<rparr>"

text \<open>An attribute region in which code 1 occurs twice, and code 200 lies beyond every
  table.\<close>

definition twice_dst :: "rtattr list" where
  "twice_dst =
     [\<lparr>rta_len = 8, rta_type = 1, rta_data = [10, 0, 0, 0]\<rparr>,
      \<lparr>rta_len = 8, rta_type = 4, rta_data = [7, 0, 0, 0]\<rparr>,
      \<lparr>rta_len = 5, rta_type = 200, rta_data = [1]\<rparr>,
      \<lparr>rta_len = 8, rta_type = 1, rta_data = [192, 0, 2, 0]\<rparr>]"

text \<open>\<^verbatim>\<open>RTM_NEWLINK\<close> for the interface 1, named lo, with MTU 65536 and the kernel flags
  \<^verbatim>\<open>IFF_UP | IFF_LOOPBACK\<close>.\<close>

definition lo_link :: "ifinfomsg nlmsg" where
  "lo_link =
     \<lparr>nlmsg_len = 48, nlmsg_type = RTM_NEWLINK, nlmsg_flags = 2, nlmsg_seq = 5, nlmsg_pid = 0,
      nlmsg_data = \<lparr>ifi_family = 0, ifi_type = 772, ifi_index = 1, ifi_flags = 0x9,
        ifi_change = 0\<rparr>,
      nlmsg_attrs =
        [\<lparr>rta_len = 7, rta_type = 3, rta_data = [0x6C, 0x6F, 0]\<rparr>,
         \<lparr>rta_len = 8, rta_type = 4, rta_data = [0, 0, 1, 0]\<rparr>]\<rparr>"

text \<open>\<^verbatim>\<open>RTM_NEWADDR\<close> for the interface 2 with local address 10.0.0.1, peer address
  10.0.0.2 and the given prefix length.\<close>

definition ppp0_addr :: "byte \<Rightarrow> ifaddrmsg nlmsg" where
  "ppp0_addr pxlen =
     \<lparr>nlmsg_len = 40, nlmsg_type = RTM_NEWADDR, nlmsg_flags = 2, nlmsg_seq = 5, nlmsg_pid = 0,
      nlmsg_data = \<lparr>ifa_family = AF_INET, ifa_prefixlen = pxlen, ifa_flags = 0, ifa_scope = 0,
        ifa_index = 2\<rparr>,
      nlmsg_attrs =
        [\<lparr>rta_len = 8, rta_type = 1, rta_data = [10, 0, 0, 2]\<rparr>,
         \<lparr>rta_len = 8, rta_type = 2, rta_data = [10, 0, 0, 1]\<rparr>]\<rparr>"

text \<open>\<^verbatim>\<open>RTM_NEWROUTE\<close> for 192.0.2.0/24 via 198.51.100.1 on the interface 7, of the given
  protocol.\<close>

definition gateway_route :: "byte \<Rightarrow> rtmsg nlmsg" where
  "gateway_route protocol =
     \<lparr>nlmsg_len = 52, nlmsg_type = RTM_NEWROUTE, nlmsg_flags = 2, nlmsg_seq = 5, nlmsg_pid = 0,
      nlmsg_data = \<lparr>rtm_family = AF_INET, rtm_dst_len = 24, rtm_src_len = 0, rtm_tos = 0,
        rtm_table = RT_TABLE_MAIN, rtm_protocol = protocol, rtm_scope = 0,
        rtm_type = RTN_UNICAST, rtm_flags = 0\<rparr>,
      nlmsg_attrs =
        [\<lparr>rta_len = 8, rta_type = 1, rta_data = [192, 0, 2, 0]\<rparr>,
         \<lparr>rta_len = 8, rta_type = 5, rta_data = [198, 51, 100, 1]\<rparr>,
         \<lparr>rta_len = 8, rta_type = 4, rta_data = [7, 0, 0, 0]\<rparr>]\<rparr>"

text \<open>The route to 192.0.2.0/24 via 10.0.0.254, as the daemon hands it to
  \<^verbatim>\<open>nl_send_route\<close>.\<close>

definition router_route :: rte where
  "router_route =
     \<lparr>rte_net = \<lparr>n_prefix = 0xC0000200, n_pxlen = 24\<rparr>,
      rte_attrs = nl_route_ra\<lparr>ra_dest := RTD_ROUTER, ra_gw := 0x0A0000FE\<rparr>,
      rte_krt_src = KRT_SRC_UNSET\<rparr>"

text \<open>The route to 192.0.2.0/24 on the interface 2.\<close>

definition device_route :: rte where
  "device_route =
     \<lparr>rte_net = \<lparr>n_prefix = 0xC0000200, n_pxlen = 24\<rparr>,
      rte_attrs = nl_route_ra\<lparr>ra_dest := RTD_DEVICE, ra_iface := Some ppp0\<rparr>,
      rte_krt_src = KRT_SRC_UNSET\<rparr>"

text \<open>The route that \<^verbatim>\<open>nl_parse_route\<close> makes of \<open>gateway_route 4\<close> when 198.51.100.1
  is no neighbor.\<close>

definition non_neighbor_rte :: rte where
  "non_neighbor_rte =
     \<lparr>rte_net = \<lparr>n_prefix = 0xC0000200, n_pxlen = 24\<rparr>,
      rte_attrs =
        \<lparr>ra_source = RTS_INHERIT, ra_scope = SCOPE_UNIVERSE, ra_cast = RTC_UNICAST,
         ra_dest = RTD_ROUTER, ra_tos = 0, ra_flags = 0, ra_aflags = 0, ra_from = 0,
         ra_gw = 0xC6336401, ra_iface = None\<rparr>,
      rte_krt_src = KRT_SRC_ALIEN\<rparr>"

text \<open>The channel after the request with sequence number 5, with a kernel that answers
  the next request by one acknowledgement: an \<^verbatim>\<open>NLMSG_ERROR\<close> message of 36 bytes with
  sequence number 6 and error code 0.\<close>

definition ack_frame :: "nlmsgerr nlmsg" where
  "ack_frame = \<lparr>nlmsg_len = 36, nlmsg_type = NLMSG_ERROR, nlmsg_flags = 0, nlmsg_seq = 6,
     nlmsg_pid = 0, nlmsg_data = \<lparr>nlerr_error = 0\<rparr>, nlmsg_attrs = []\<rparr>"

definition acking_kernel :: "(rtmsg, nlmsgerr) nl_sync" where
  "acking_kernel =
     \<lparr>nl_sync_seq = 5, nl_last_hdr = None, nl_last_size = 0, nl_log = [],
      rx_queue = [\<lparr>dg_ret = 36, dg_pid = 0, dg_trunc = False, dg_frames = [ack_frame]\<rparr>],
      tx_sent = [], sendto_fails = False\<rparr>"

section \<open>Sizes\<close>

lemma sizeof_nlmsghdr_eq: "sizeof_nlmsghdr = 16"
  by code_simp

lemma sizeof_rtgenmsg_eq: "sizeof_rtgenmsg = 1"
  by code_simp

lemma sizeof_dump_req_eq: "sizeof_dump_req = 20"
  by code_simp

lemma sizeof_rtmsg_eq: "sizeof_rtmsg = 12"
  by code_simp

lemma sizeof_ifaddrmsg_eq: "sizeof_ifaddrmsg = 8"
  by code_simp

lemma sizeof_ifinfomsg_eq: "sizeof_ifinfomsg = 16"
  by code_simp

lemma sizeof_rtattr_eq: "sizeof_rtattr = 4"
  by code_simp

lemma sizeof_route_req_eq: "sizeof_route_req = 156"
  by code_simp

lemma NLMSG_LENGTH_eq: "NLMSG_LENGTH n = n + 16"
  by (simp add: NLMSG_LENGTH_def sizeof_nlmsghdr_eq align_up_def)

lemma RTA_LENGTH_eq: "RTA_LENGTH n = n + 4"
  by (simp add: RTA_LENGTH_def sizeof_rtattr_eq align_up_def)

section \<open>The synchronous channel\<close>

subsection \<open>Dump requests\<close>

text \<open>
  C8, as the code has it. For every command the request of \<^verbatim>\<open>nl_request_dump\<close> has the
  length \<^verbatim>\<open>sizeof(req)\<close>, which is 20: the 16 bytes of the header and the one byte of
  \<^verbatim>\<open>struct rtgenmsg\<close>, rounded up to the alignment of the structure. Its flags are
  \<^verbatim>\<open>NLM_F_REQUEST | NLM_F_DUMP\<close>, its family is \<^verbatim>\<open>PF_INET\<close>, its type is the command of
  the caller, and this is the message given to \<^verbatim>\<open>sendto\<close>, stamped with pid 0 and the next
  sequence number.
\<close>

theorem nl_request_dump_frame:
  "nlmsg_len (nl_dump_req junk cmd) = of_nat sizeof_dump_req \<and>
   nlmsg_len (nl_dump_req junk cmd) = 20 \<and>
   nlmsg_len (nl_dump_req junk cmd) = of_nat (align_up (sizeof_nlmsghdr + sizeof_rtgenmsg) 4) \<and>
   nlmsg_flags (nl_dump_req junk cmd) = NLM_F_REQUEST OR NLM_F_DUMP \<and>
   nlmsg_data (nl_dump_req junk cmd) = PF_INET \<and>
   PF_INET = AF_INET \<and>
   nlmsg_type (nl_dump_req junk (uint c)) = c \<and>
   nl_request_dump junk (uint c) (s\<lparr>sendto_fails := False\<rparr>) =
     Inr (s\<lparr>sendto_fails := False, nl_sync_seq := nl_sync_seq s + 1,
            tx_sent := tx_sent s @
              [nl_dump_req junk (uint c)\<lparr>nlmsg_pid := 0, nlmsg_seq := nl_sync_seq s + 1\<rparr>],
            nl_last_hdr := None\<rparr>)"
  by (simp add: nl_dump_req_def nl_request_dump_def nl_send_def sizeof_dump_req_eq
      sizeof_nlmsghdr_eq sizeof_rtgenmsg_eq align_up_def Let_def PF_INET_def)

text \<open>
  C8, as the claim has it, fails: the length of the request for \<^verbatim>\<open>RTM_GETLINK\<close> is not
  \<^verbatim>\<open>sizeof(struct nlmsghdr) + sizeof(struct rtgenmsg)\<close>, which is 17.
\<close>

theorem nl_request_dump_len_counterexample:
  "nlmsg_len (nl_dump_req blank_req (uint RTM_GETLINK)) = 20 \<and>
   sizeof_nlmsghdr + sizeof_rtgenmsg = 17 \<and>
   nlmsg_len (nl_dump_req blank_req (uint RTM_GETLINK)) \<noteq>
     of_nat (sizeof_nlmsghdr + sizeof_rtgenmsg)"
  by (simp add: nl_dump_req_def sizeof_dump_req_eq sizeof_nlmsghdr_eq sizeof_rtgenmsg_eq)

subsection \<open>Replies out of sequence\<close>

lemma out_of_seq_log [simp]: "out_of_seq (s\<lparr>nl_log := l\<rparr>) = out_of_seq s"
  by (simp add: out_of_seq_def split: option.splits list.splits)

text \<open>A turn that finds a reply out of sequence logs a warning and leaves the cursor
  where it is.\<close>

lemma out_of_seq_turn:
  "out_of_seq s \<Longrightarrow> nl_get_reply_turn s = Continue (s\<lparr>nl_log := nl_log s @
     [(L_WARN, ''nl_get_reply: Ignoring out of sequence netlink packet (%x != %x)'')]\<rparr>)"
  by (auto simp: out_of_seq_def nl_get_reply_turn_def nl_get_reply_inspect_def
      split: option.splits list.splits)

text \<open>Induction over the turns of the loop: a property of the call and its result that
  holds for the turn that ends the loop, and for a call whose first turn goes on to a call
  that has the property, holds whenever \<^verbatim>\<open>nl_get_reply\<close> returns.\<close>

lemma nl_get_reply_rule:
  assumes ret: "nl_get_reply s = Some y"
    and Return: "\<And>s h s'. nl_get_reply_turn s = Return h s' \<Longrightarrow> P s (Inr (h, s'))"
    and Fail: "\<And>s e. nl_get_reply_turn s = Fail e \<Longrightarrow> P s (Inl e)"
    and Continue: "\<And>s s1 y. nl_get_reply_turn s = Continue s1 \<Longrightarrow> P s1 y \<Longrightarrow> P s y"
  shows "P s y"
proof (rule nl_get_reply.raw_induct [where P = P, OF _ ret])
  show "P s0 y'"
    if IH: "\<And>x y. f x = Some y \<Longrightarrow> P x y"
      and body: "(case nl_get_reply_turn s0 of
          Return h s'' \<Rightarrow> Some (Inr (h, s''))
        | Continue s'' \<Rightarrow> f s''
        | Fail e \<Rightarrow> Some (Inl e)) = Some y'"
    for f s0 y'
  proof (cases "nl_get_reply_turn s0")
    case (Return h1 s1)
    with body assms(2) [OF Return] show ?thesis by simp
  next
    case (Continue s1)
    with body have "f s1 = Some y'" by simp
    from assms(4) [OF Continue IH [OF this]] show ?thesis .
  next
    case (Fail e)
    with body assms(3) [OF Fail] show ?thesis by simp
  qed
qed

lemma nl_get_reply_not_out_of_seq:
  assumes "nl_get_reply s = Some y"
  shows "\<not> out_of_seq s"
  using assms
proof (rule nl_get_reply_rule [where P = "\<lambda>s y. \<not> out_of_seq s"])
  show "\<not> out_of_seq s0"
    if "nl_get_reply_turn s0 = Continue s1" and "\<not> out_of_seq s1" for s0 s1
    using that out_of_seq_turn [of s0] by auto
qed (use out_of_seq_turn in fastforce)+

text \<open>So \<^verbatim>\<open>nl_get_reply\<close> never returns once the cursor is at such a reply.\<close>

lemma nl_get_reply_out_of_seq: "out_of_seq s \<Longrightarrow> nl_get_reply s = None"
  using nl_get_reply_not_out_of_seq by (cases "nl_get_reply s") auto

text \<open>What \<^verbatim>\<open>nl_get_reply\<close> does return has the sequence number of the last request.\<close>

lemma nl_get_reply_turn_seq:
  "nl_get_reply_turn s = Return h s' \<Longrightarrow> nlmsg_seq h = nl_sync_seq s"
  "nl_get_reply_turn s = Continue s' \<Longrightarrow> nl_sync_seq s' = nl_sync_seq s"
  by (cases "nl_last_hdr s";
      auto simp: nl_get_reply_turn_def nl_get_reply_inspect_def nl_get_reply_remnant_def Let_def
        split: list.splits if_splits)+

lemma nl_get_reply_in_sequence:
  assumes "nl_get_reply s = Some y"
  shows "\<forall>h s'. y = Inr (h, s') \<longrightarrow> nlmsg_seq h = nl_sync_seq s"
  using assms
  by (rule nl_get_reply_rule
        [where P = "\<lambda>s y. \<forall>h s'. y = Inr (h, s') \<longrightarrow> nlmsg_seq h = nl_sync_seq s"])
    (auto dest: nl_get_reply_turn_seq)

text \<open>
  C3 at a concrete input. A dump with sequence number 5 is in flight and the kernel's
  datagram holds a reply with number 4 followed by a reply with number 5. The stale reply
  is not returned, but it is not skipped either: \<^verbatim>\<open>continue\<close> is reached before
  \<^verbatim>\<open>NLMSG_NEXT\<close>, the cursor stays on the stale reply and the loop never ends. Without
  the stale reply the same call returns the reply with number 5.
\<close>

theorem nl_get_reply_stale_reply_never_returns:
  "nl_get_reply (dump_in_flight [reply_frame 4, reply_frame 5]) = None \<and>
   nl_get_reply (dump_in_flight [reply_frame 5]) =
     Some (Inr (reply_frame 5, (dump_in_flight [reply_frame 5])
       \<lparr>rx_queue := [], nl_last_size := 0, nl_last_hdr := Some []\<rparr>))"
proof
  let ?s = "(dump_in_flight [reply_frame 4, reply_frame 5])
          \<lparr>rx_queue := [], nl_last_size := 40,
           nl_last_hdr := Some [reply_frame 4, reply_frame 5],
           nl_log := [(L_WARN,
             ''nl_get_reply: Ignoring out of sequence netlink packet (%x != %x)'')]\<rparr>"
  have "nl_get_reply_turn (dump_in_flight [reply_frame 4, reply_frame 5]) = Continue ?s"
    by (simp add: nl_get_reply_turn_def nl_get_reply_inspect_def dump_in_flight_def
        reply_frame_def NLMSG_OK_def sizeof_nlmsghdr_eq)
  moreover have "out_of_seq ?s"
    by (simp add: out_of_seq_def dump_in_flight_def reply_frame_def NLMSG_OK_def
        sizeof_nlmsghdr_eq)
  ultimately show "nl_get_reply (dump_in_flight [reply_frame 4, reply_frame 5]) = None"
    by (subst nl_get_reply.simps) (simp add: nl_get_reply_out_of_seq)
next
  show "nl_get_reply (dump_in_flight [reply_frame 5]) =
     Some (Inr (reply_frame 5, (dump_in_flight [reply_frame 5])
       \<lparr>rx_queue := [], nl_last_size := 0, nl_last_hdr := Some []\<rparr>))"
    by (subst nl_get_reply.simps)
      (simp add: nl_get_reply_turn_def nl_get_reply_inspect_def dump_in_flight_def
        reply_frame_def NLMSG_OK_def sizeof_nlmsghdr_eq NLMSG_ALIGN_def)
qed

subsection \<open>The cursor after a request\<close>

lemma inspect_Return:
  "nl_get_reply_inspect s cur = Return h s' \<Longrightarrow> h \<in> set cur \<and> rx_queue s' = rx_queue s"
  by (auto simp: nl_get_reply_inspect_def split: list.splits if_splits)

lemma inspect_Continue:
  "nl_get_reply_inspect s cur = Continue s' \<Longrightarrow>
     rx_queue s' = rx_queue s \<and> (nl_last_hdr s' = nl_last_hdr s \<or> nl_last_hdr s' = None)"
  by (auto simp: nl_get_reply_inspect_def nl_get_reply_remnant_def split: list.splits if_splits)

lemma turn_Return:
  "nl_get_reply_turn s = Return h s' \<Longrightarrow> from_cursor s h s' \<or> from_queue s h s'"
  by (cases "nl_last_hdr s")
    (auto simp: nl_get_reply_turn_def Let_def from_cursor_def from_queue_def
      split: list.splits if_splits dest!: inspect_Return)

lemma turn_Continue:
  "nl_get_reply_turn s = Continue s1 \<Longrightarrow>
     (rx_queue s1 = rx_queue s \<and> (nl_last_hdr s1 = nl_last_hdr s \<or> nl_last_hdr s1 = None)) \<or>
     (nl_last_hdr s = None \<and> (\<exists>d. rx_queue s = d # rx_queue s1 \<and>
        (nl_last_hdr s1 = None \<or> (nl_last_hdr s1 = Some (dg_frames d) \<and> dg_pid d = 0))))"
  by (cases "nl_last_hdr s")
    (auto simp: nl_get_reply_turn_def Let_def
      split: list.splits if_splits dest!: inspect_Continue)

lemma turn_origin:
  assumes t: "nl_get_reply_turn s = Continue s1"
    and o: "from_cursor s1 h s' \<or> from_queue s1 h s'"
  shows "from_cursor s h s' \<or> from_queue s h s'"
  using turn_Continue [OF t] o
  apply (auto simp: from_cursor_def from_queue_def)
   apply (metis append_Cons)
  apply metis
  done

text \<open>Every header that \<^verbatim>\<open>nl_get_reply\<close> returns lies under the cursor of the call or in
  a datagram of the kernel received during the call.\<close>

lemma nl_get_reply_origin:
  assumes "nl_get_reply s = Some y"
  shows "\<forall>h s'. y = Inr (h, s') \<longrightarrow> from_cursor s h s' \<or> from_queue s h s'"
  using assms
proof (rule nl_get_reply_rule
    [where P = "\<lambda>s y. \<forall>h s'. y = Inr (h, s') \<longrightarrow> from_cursor s h s' \<or> from_queue s h s'"])
  show "\<forall>h' s''. Inr (h, s') = Inr (h', s'') \<longrightarrow>
          from_cursor s0 h' s'' \<or> from_queue s0 h' s''"
    if "nl_get_reply_turn s0 = Return h s'" for s0 h s'
    using turn_Return [OF that] by simp
next
  show "\<forall>h s'. y0 = Inr (h, s') \<longrightarrow> from_cursor s0 h s' \<or> from_queue s0 h s'"
    if "nl_get_reply_turn s0 = Continue s1"
      and "\<forall>h s'. y0 = Inr (h, s') \<longrightarrow> from_cursor s1 h s' \<or> from_queue s1 h s'"
    for s0 s1 y0
    using that turn_origin by blast
qed simp

text \<open>
  C10. A successful \<^verbatim>\<open>nl_send\<close> leaves the cursor \<^verbatim>\<open>NULL\<close>, whatever it pointed at
  before, so what was left in the receive buffer has no part in the state after the
  request; and every reply that \<^verbatim>\<open>nl_get_reply\<close> then returns was found in a datagram
  of the kernel that a \<^verbatim>\<open>recvmsg\<close> of this call took from the socket.
\<close>

theorem nl_send_forgets_cursor:
  assumes "nl_send nh s = Inr s1"
  shows "nl_last_hdr s1 = None \<and>
         nl_send nh (s\<lparr>nl_last_hdr := leftover\<rparr>) = Inr s1 \<and>
         (\<forall>h s2. nl_get_reply s1 = Some (Inr (h, s2)) \<longrightarrow>
            (\<exists>ds d. rx_queue s = ds @ d # rx_queue s2 \<and> dg_pid d = 0 \<and>
               h \<in> set (dg_frames d)))"
proof -
  from assms have s1: "nl_last_hdr s1 = None" and q: "rx_queue s1 = rx_queue s"
    and l: "nl_send nh (s\<lparr>nl_last_hdr := leftover\<rparr>) = Inr s1"
    by (auto simp: nl_send_def Let_def split: if_splits)
  have "from_queue s1 h s2" if "nl_get_reply s1 = Some (Inr (h, s2))" for h s2
    using nl_get_reply_origin [OF that] s1 by (simp add: from_cursor_def)
  with s1 q l show ?thesis by (simp add: from_queue_def)
qed

theorem nl_send_forgets_cursor_witness:
  "nl_send (nl_dump_req blank_req 18) leftover_state =
     Inr (leftover_state\<lparr>nl_sync_seq := 6,
            tx_sent := [nl_dump_req blank_req 18\<lparr>nlmsg_pid := 0, nlmsg_seq := 6\<rparr>],
            nl_last_hdr := None\<rparr>) \<and>
   nl_get_reply (leftover_state\<lparr>nl_sync_seq := 6,
            tx_sent := [nl_dump_req blank_req 18\<lparr>nlmsg_pid := 0, nlmsg_seq := 6\<rparr>],
            nl_last_hdr := None\<rparr>) =
     Some (Inr ((reply_frame 6)\<lparr>nlmsg_type := NLMSG_DONE\<rparr>,
       leftover_state\<lparr>nl_sync_seq := 6,
            tx_sent := [nl_dump_req blank_req 18\<lparr>nlmsg_pid := 0, nlmsg_seq := 6\<rparr>],
            rx_queue := [], nl_last_size := 0, nl_last_hdr := Some []\<rparr>)) \<and>
   (\<exists>ds d. rx_queue leftover_state = ds @ [d] \<and> dg_pid d = 0 \<and>
      (reply_frame 6)\<lparr>nlmsg_type := NLMSG_DONE\<rparr> \<in> set (dg_frames d))"
proof -
  let ?s1 = "leftover_state\<lparr>nl_sync_seq := 6,
            tx_sent := [nl_dump_req blank_req 18\<lparr>nlmsg_pid := 0, nlmsg_seq := 6\<rparr>],
            nl_last_hdr := None\<rparr>"
  have a: "nl_send (nl_dump_req blank_req 18) leftover_state = Inr ?s1"
    by (simp add: nl_send_def leftover_state_def Let_def)
  have b: "nl_get_reply ?s1 =
     Some (Inr ((reply_frame 6)\<lparr>nlmsg_type := NLMSG_DONE\<rparr>,
       leftover_state\<lparr>nl_sync_seq := 6,
            tx_sent := [nl_dump_req blank_req 18\<lparr>nlmsg_pid := 0, nlmsg_seq := 6\<rparr>],
            rx_queue := [], nl_last_size := 0, nl_last_hdr := Some []\<rparr>))"
    by (subst nl_get_reply.simps)
      (simp add: nl_get_reply_turn_def nl_get_reply_inspect_def leftover_state_def
        reply_frame_def NLMSG_OK_def sizeof_nlmsghdr_eq NLMSG_ALIGN_def)
  from nl_send_forgets_cursor [OF a] b
  have "\<exists>ds d. rx_queue leftover_state = ds @ d # [] \<and> dg_pid d = 0 \<and>
      (reply_frame 6)\<lparr>nlmsg_type := NLMSG_DONE\<rparr> \<in> set (dg_frames d)"
    by simp
  with a b show ?thesis by simp
qed

section \<open>Netlink attributes\<close>

lemma nl_checkin_Some:
  "nl_checkin h lsize = (lg, Some (len, i)) \<Longrightarrow> lg = [] \<and> i = nlmsg_data h \<and> 0 \<le> len"
  by (auto simp: nl_checkin_def Let_def split: if_splits)

lemma nl_parse_attrs_ok:
  "nl_parse_attrs as len kmax = (lg, True, k) \<Longrightarrow> lg = []"
  by (auto simp: nl_parse_attrs_def split: prod.splits if_splits)

lemma RTA_ALIGN_ge: "n \<le> RTA_ALIGN n"
  unfolding RTA_ALIGN_def by presburger

lemma rta_region_len_nonneg: "rta_well_formed as \<Longrightarrow> 0 \<le> rta_region_len as"
proof (induction as)
  case Nil
  show ?case by (simp add: rta_region_len_def)
next
  case (Cons a as)
  have "0 \<le> uint (rta_len a)" by simp
  with RTA_ALIGN_ge [of "uint (rta_len a)"] have "0 \<le> RTA_ALIGN (uint (rta_len a))"
    by linarith
  with Cons show ?case by (simp add: rta_region_len_def rta_well_formed_def)
qed

text \<open>In a well-formed region \<^verbatim>\<open>RTA_OK\<close> holds at every header the loop comes to.\<close>

lemma RTA_OK_head:
  assumes "rta_well_formed (a # as)"
  shows "RTA_OK a (rta_region_len (a # as))"
proof -
  from assms have len: "4 \<le> unat (rta_len a)" and rest: "rta_well_formed as"
    by (simp_all add: rta_well_formed_def sizeof_rtattr_eq)
  from len have "4 \<le> uint (rta_len a)" by (metis numeral_nat_le_iff of_nat_unat)
  moreover have "uint (rta_len a) \<le> RTA_ALIGN (uint (rta_len a))" by (rule RTA_ALIGN_ge)
  moreover have "rta_region_len (a # as) = RTA_ALIGN (uint (rta_len a)) + rta_region_len as"
    by (simp add: rta_region_len_def)
  moreover note rta_region_len_nonneg [OF rest]
  ultimately show ?thesis using len by (simp add: RTA_OK_def sizeof_rtattr_eq)
qed

lemma find_app:
  "find P (xs @ ys) = (case find P xs of None \<Rightarrow> find P ys | Some x \<Rightarrow> Some x)"
  by (induction xs) auto

lemma rta_last_Cons:
  "rta_last c (a # as) =
     (case rta_last c as of Some x \<Rightarrow> Some x
      | None \<Rightarrow> if unat (rta_type a) = c then Some a else None)"
  by (simp add: rta_last_def find_app split: option.splits)

text \<open>The loop from any table \<open>k\<close>: an entry is the last attribute of its code, or what
  \<open>k\<close> held when there is none.\<close>

lemma nl_parse_attrs_walk_well_formed:
  "rta_well_formed as \<Longrightarrow>
   nl_parse_attrs_walk as (rta_region_len as) (length k) k =
     (0, map (\<lambda>c. case rta_last c as of Some x \<Rightarrow> Some x | None \<Rightarrow> k ! c) [0..<length k])"
proof (induction as arbitrary: k)
  case Nil
  show ?case by (simp add: rta_region_len_def rta_last_def map_nth)
next
  case (Cons a as)
  let ?k' = "if unat (rta_type a) < length k then k[unat (rta_type a) := Some a] else k"
  have ok: "RTA_OK a (rta_region_len (a # as))" by (rule RTA_OK_head [OF Cons.prems])
  have rest: "rta_well_formed as" using Cons.prems by (simp add: rta_well_formed_def)
  have split: "rta_region_len (a # as) - RTA_ALIGN (uint (rta_len a)) = rta_region_len as"
    by (simp add: rta_region_len_def)
  have "nl_parse_attrs_walk (a # as) (rta_region_len (a # as)) (length k) k =
        nl_parse_attrs_walk as (rta_region_len as) (length ?k') ?k'"
    using ok split by simp
  also have "\<dots> = (0, map (\<lambda>c. case rta_last c as of Some x \<Rightarrow> Some x | None \<Rightarrow> ?k' ! c)
                       [0..<length ?k'])"
    by (rule Cons.IH [OF rest])
  also have "map (\<lambda>c. case rta_last c as of Some x \<Rightarrow> Some x | None \<Rightarrow> ?k' ! c)
               [0..<length ?k'] =
             map (\<lambda>c. case rta_last c (a # as) of Some x \<Rightarrow> Some x | None \<Rightarrow> k ! c)
               [0..<length k]"
    by (auto simp: rta_last_Cons nth_list_update split: option.splits)
  finally show ?case .
qed

text \<open>
  C9. In a well-formed attribute region \<^verbatim>\<open>nl_parse_attrs\<close> succeeds without logging,
  however often a code occurs, and the entry of the table for a code \<open>c\<close> below the bound
  is the last attribute with that code in wire order (no entry when there is none).
\<close>

theorem nl_parse_attrs_last_wins:
  assumes "rta_well_formed as" and "c < kmax"
  shows "nl_parse_attrs as (rta_region_len as) kmax =
           ([], True, map (\<lambda>c. rta_last c as) [0..<kmax]) \<and>
         snd (snd (nl_parse_attrs as (rta_region_len as) kmax)) ! c = rta_last c as"
proof -
  have "nl_parse_attrs_walk as (rta_region_len as) kmax (replicate kmax None) =
        (0, map (\<lambda>c. rta_last c as) [0..<kmax])"
    using nl_parse_attrs_walk_well_formed [OF assms(1), of "replicate kmax None"]
    by (auto split: option.splits intro!: arg_cong [where f = "Pair 0"])
  then show ?thesis using assms(2) by (simp add: nl_parse_attrs_def)
qed

theorem nl_parse_attrs_last_wins_witness:
  "rta_well_formed twice_dst \<and> RTA_DST < RTA_CACHEINFO + 1 \<and> rta_region_len twice_dst = 32 \<and>
   fst (snd (nl_parse_attrs twice_dst 32 (RTA_CACHEINFO + 1))) = True \<and>
   snd (snd (nl_parse_attrs twice_dst 32 (RTA_CACHEINFO + 1))) ! RTA_DST =
     Some \<lparr>rta_len = 8, rta_type = 1, rta_data = [192, 0, 2, 0]\<rparr>"
proof -
  have wf: "rta_well_formed twice_dst" by code_simp
  have lt: "RTA_DST < RTA_CACHEINFO + 1" by code_simp
  have len: "rta_region_len twice_dst = 32" by code_simp
  have last: "rta_last RTA_DST twice_dst =
     Some \<lparr>rta_len = 8, rta_type = 1, rta_data = [192, 0, 2, 0]\<rparr>" by code_simp
  note th = nl_parse_attrs_last_wins [OF wf lt]
  have ok: "fst (snd (nl_parse_attrs twice_dst (rta_region_len twice_dst)
                        (RTA_CACHEINFO + 1))) = True"
    by (simp only: th [THEN conjunct1] fst_conv snd_conv)
  have tab: "snd (snd (nl_parse_attrs twice_dst (rta_region_len twice_dst)
                          (RTA_CACHEINFO + 1))) ! RTA_DST = rta_last RTA_DST twice_dst"
    by (rule th [THEN conjunct2])
  from wf lt len ok [unfolded len] tab [unfolded len last] show ?thesis by blast
qed

section \<open>Interfaces and addresses\<close>

subsection \<open>Link messages\<close>

text \<open>The flags after lines 315 to 324 depend on the kernel's flags alone.\<close>

lemma nl_parse_link_flags_eq:
  "if_flags (nl_parse_link_flags c fl f0) =
     (if fl AND IFF_UP \<noteq> 0 then IF_LINK_UP c else 0) OR
     (if fl AND IFF_LOOPBACK \<noteq> 0 then IF_LOOPBACK c OR IF_IGNORE c else 0) OR
     (if fl AND IFF_BROADCAST \<noteq> 0 then IF_BROADCAST c OR IF_MULTICAST c else 0) OR
     (if fl AND IFF_POINTOPOINT \<noteq> 0 then IF_UNNUMBERED c OR IF_MULTICAST c else 0)"
  by (simp add: nl_parse_link_flags_def Let_def ac_simps)

lemma nl_parse_link_new:
  assumes "nlmsg_type h = RTM_NEWLINK" and "nl_parse_link c find_if h scan = (lg, Some f)"
  shows "\<exists>f0. f = nl_parse_link_flags c (ifi_flags (nlmsg_data h)) f0"
  using assms
  by (auto simp: nl_parse_link_def Let_def split: prod.splits option.splits if_splits
      dest!: nl_checkin_Some)

text \<open>
  C7. Whatever interface table the daemon has, the record that \<^verbatim>\<open>nl_parse_link\<close>
  publishes for an \<^verbatim>\<open>RTM_NEWLINK\<close> message has as flags exactly the union of
  \<^verbatim>\<open>IF_LINK_UP\<close> if \<^verbatim>\<open>IFF_UP\<close> is set, \<^verbatim>\<open>IF_LOOPBACK | IF_IGNORE\<close> if \<^verbatim>\<open>IFF_LOOPBACK\<close>
  is set, \<^verbatim>\<open>IF_BROADCAST | IF_MULTICAST\<close> if \<^verbatim>\<open>IFF_BROADCAST\<close> is set and
  \<^verbatim>\<open>IF_UNNUMBERED | IF_MULTICAST\<close> if \<^verbatim>\<open>IFF_POINTOPOINT\<close> is set: no flag of the record
  known before survives.
\<close>

theorem nl_parse_link_flags_fresh:
  assumes "nlmsg_type h = RTM_NEWLINK" and "nl_parse_link c find_if h scan = (lg, Some f)"
  shows "if_flags f =
     (if ifi_flags (nlmsg_data h) AND IFF_UP \<noteq> 0 then IF_LINK_UP c else 0) OR
     (if ifi_flags (nlmsg_data h) AND IFF_LOOPBACK \<noteq> 0
      then IF_LOOPBACK c OR IF_IGNORE c else 0) OR
     (if ifi_flags (nlmsg_data h) AND IFF_BROADCAST \<noteq> 0
      then IF_BROADCAST c OR IF_MULTICAST c else 0) OR
     (if ifi_flags (nlmsg_data h) AND IFF_POINTOPOINT \<noteq> 0
      then IF_UNNUMBERED c OR IF_MULTICAST c else 0)"
  using nl_parse_link_new [OF assms] by (auto simp only: nl_parse_link_flags_eq)

theorem nl_parse_link_flags_fresh_witness:
  "nlmsg_type lo_link = RTM_NEWLINK \<and>
   nl_parse_link sample_flags no_iface lo_link True =
     ([], Some \<lparr>if_name = [0x6C, 0x6F], if_flags = 0x380, if_mtu = 65536, if_index = 1,
               if_ip = 0, if_prefix = 0, if_pxlen = 0, if_brd = 0, if_opposite = 0\<rparr>) \<and>
   (0x380 :: u32) =
     IF_LINK_UP sample_flags OR IF_LOOPBACK sample_flags OR IF_IGNORE sample_flags"
proof -
  have t: "nlmsg_type lo_link = RTM_NEWLINK" by code_simp
  have r: "nl_parse_link sample_flags no_iface lo_link True =
     ([], Some \<lparr>if_name = [0x6C, 0x6F], if_flags = 0x380, if_mtu = 65536, if_index = 1,
               if_ip = 0, if_prefix = 0, if_pxlen = 0, if_brd = 0, if_opposite = 0\<rparr>)"
    by code_simp
  have e: "(if ifi_flags (nlmsg_data lo_link) AND IFF_UP \<noteq> 0
            then IF_LINK_UP sample_flags else 0) OR
     (if ifi_flags (nlmsg_data lo_link) AND IFF_LOOPBACK \<noteq> 0
      then IF_LOOPBACK sample_flags OR IF_IGNORE sample_flags else 0) OR
     (if ifi_flags (nlmsg_data lo_link) AND IFF_BROADCAST \<noteq> 0
      then IF_BROADCAST sample_flags OR IF_MULTICAST sample_flags else 0) OR
     (if ifi_flags (nlmsg_data lo_link) AND IFF_POINTOPOINT \<noteq> 0
      then IF_UNNUMBERED sample_flags OR IF_MULTICAST sample_flags else 0) =
     IF_LINK_UP sample_flags OR IF_LOOPBACK sample_flags OR IF_IGNORE sample_flags"
    by code_simp
  from nl_parse_link_flags_fresh [OF t r]
  have "(0x380 :: u32) =
     IF_LINK_UP sample_flags OR IF_LOOPBACK sample_flags OR IF_IGNORE sample_flags"
    unfolding e by simp
  with t r show ?thesis by blast
qed

subsection \<open>Address messages\<close>

text \<open>What a message that passes the checks of \<^verbatim>\<open>nl_parse_addr\<close> is like: an IPv4
  address that is not secondary, with \<^verbatim>\<open>IFA_ADDRESS\<close> and \<^verbatim>\<open>IFA_LOCAL\<close> of four bytes,
  on an interface the daemon knows.\<close>

lemma nl_parse_addr_checks_Some:
  assumes "nl_parse_addr_checks find_if h = (lg, Some (i, a_address, a_local, a_broadcast, ifi))"
  shows "lg = [] \<and> i = nlmsg_data h \<and> find_if (ifa_index i) = Some ifi \<and>
         ifa_family i = AF_INET \<and> ifa_flags i AND IFA_F_SECONDARY = 0 \<and>
         RTA_PAYLOAD a_address = 4 \<and> RTA_PAYLOAD a_local = 4"
  using assms
  by (auto simp: nl_parse_addr_checks_def Let_def split: prod.splits option.splits if_splits
      dest!: nl_checkin_Some nl_parse_attrs_ok)

text \<open>
  C4. An address message that passes the checks up to the lookup of its interface, so
  that the interface \<open>ifi\<close> is known, and whose prefix length is greater than 32, or 31, or
  not 32 on an interface with \<^verbatim>\<open>IF_UNNUMBERED\<close>, is logged as an error and published as
  a deletion: the record given to \<^verbatim>\<open>if_update\<close> is the interface with prefix length 0 and
  with \<^verbatim>\<open>ip\<close>, \<^verbatim>\<open>brd\<close> and \<^verbatim>\<open>opposite\<close> set to \<^verbatim>\<open>IPA_NONE\<close>.
\<close>

theorem nl_parse_addr_invalid_prefix:
  assumes "nl_parse_addr_checks find_if h = (lg, Some (i, a_address, a_local, a_broadcast, ifi))"
    and "ifa_prefixlen i > 32 \<or> ifa_prefixlen i = 31 \<or>
         (if_flags ifi AND IF_UNNUMBERED c \<noteq> 0 \<and> ifa_prefixlen i \<noteq> 32)"
  shows "nl_parse_addr c find_if h =
           (lg @ [(L_ERR, ''KRT: Invalid prefix length for interface %s: %d'')],
            Some (ifi\<lparr>if_ip := IPA_NONE, if_brd := IPA_NONE, if_opposite := IPA_NONE,
                      if_pxlen := 0\<rparr>))"
  using assms by (auto simp: nl_parse_addr_def nl_parse_addr_update_def Let_def)

theorem nl_parse_addr_invalid_prefix_witness:
  "nl_parse_addr_checks only_ppp0 (ppp0_addr 33) =
     ([], Some (nlmsg_data (ppp0_addr 33),
                \<lparr>rta_len = 8, rta_type = 1, rta_data = [10, 0, 0, 2]\<rparr>,
                \<lparr>rta_len = 8, rta_type = 2, rta_data = [10, 0, 0, 1]\<rparr>, None, ppp0)) \<and>
   ifa_prefixlen (nlmsg_data (ppp0_addr 33)) > 32 \<and>
   nl_parse_addr sample_flags only_ppp0 (ppp0_addr 33) =
     ([(L_ERR, ''KRT: Invalid prefix length for interface %s: %d'')],
      Some (ppp0\<lparr>if_ip := IPA_NONE, if_brd := IPA_NONE, if_opposite := IPA_NONE,
                 if_pxlen := 0\<rparr>))"
proof -
  have a: "nl_parse_addr_checks only_ppp0 (ppp0_addr 33) =
     ([], Some (nlmsg_data (ppp0_addr 33),
                \<lparr>rta_len = 8, rta_type = 1, rta_data = [10, 0, 0, 2]\<rparr>,
                \<lparr>rta_len = 8, rta_type = 2, rta_data = [10, 0, 0, 1]\<rparr>, None, ppp0))"
    by code_simp
  have b: "ifa_prefixlen (nlmsg_data (ppp0_addr 33)) > 32" by code_simp
  from nl_parse_addr_invalid_prefix [OF a, of sample_flags] a b show ?thesis by simp
qed

text \<open>
  C6. An \<^verbatim>\<open>RTM_NEWADDR\<close> message that passes the checks, on an interface with
  \<^verbatim>\<open>IF_UNNUMBERED\<close>, and whose prefix length is not refused (so that the message is not
  turned into a deletion) is published with prefix length 32 and with \<^verbatim>\<open>opposite\<close> and
  \<^verbatim>\<open>brd\<close> both the payload of its \<^verbatim>\<open>IFA_ADDRESS\<close> attribute, converted to host byte order.
\<close>

theorem nl_parse_addr_unnumbered:
  assumes "nl_parse_addr_checks find_if h = (lg, Some (i, a_address, a_local, a_broadcast, ifi))"
    and "nlmsg_type h = RTM_NEWADDR"
    and "if_flags ifi AND IF_UNNUMBERED c \<noteq> 0"
    and "\<not> (ifa_prefixlen i > 32 \<or> ifa_prefixlen i = 31 \<or>
            (if_flags ifi AND IF_UNNUMBERED c \<noteq> 0 \<and> ifa_prefixlen i \<noteq> 32))"
  shows "\<exists>f. nl_parse_addr c find_if h = (lg, Some f) \<and> if_pxlen f = 32 \<and>
           if_opposite f = ipa_ntoh (get_u32 (rta_data a_address)) \<and>
           if_brd f = ipa_ntoh (get_u32 (rta_data a_address))"
  using assms by (auto simp: nl_parse_addr_def nl_parse_addr_update_def Let_def)

theorem nl_parse_addr_unnumbered_witness:
  "nl_parse_addr_checks only_ppp0 (ppp0_addr 32) =
     ([], Some (nlmsg_data (ppp0_addr 32),
                \<lparr>rta_len = 8, rta_type = 1, rta_data = [10, 0, 0, 2]\<rparr>,
                \<lparr>rta_len = 8, rta_type = 2, rta_data = [10, 0, 0, 1]\<rparr>, None, ppp0)) \<and>
   nlmsg_type (ppp0_addr 32) = RTM_NEWADDR \<and>
   if_flags ppp0 AND IF_UNNUMBERED sample_flags \<noteq> 0 \<and>
   ifa_prefixlen (nlmsg_data (ppp0_addr 32)) = 32 \<and>
   nl_parse_addr sample_flags only_ppp0 (ppp0_addr 32) =
     ([], Some (ppp0\<lparr>if_ip := 0x0A000001, if_prefix := 0x0A000001, if_pxlen := 32,
                      if_brd := 0x0A000002, if_opposite := 0x0A000002\<rparr>)) \<and>
   (\<exists>f. nl_parse_addr sample_flags only_ppp0 (ppp0_addr 32) = ([], Some f) \<and>
      if_pxlen f = 32 \<and>
      if_opposite f = ipa_ntoh (get_u32 [10, 0, 0, 2]) \<and>
      if_brd f = ipa_ntoh (get_u32 [10, 0, 0, 2]))"
proof -
  have a: "nl_parse_addr_checks only_ppp0 (ppp0_addr 32) =
     ([], Some (nlmsg_data (ppp0_addr 32),
                \<lparr>rta_len = 8, rta_type = 1, rta_data = [10, 0, 0, 2]\<rparr>,
                \<lparr>rta_len = 8, rta_type = 2, rta_data = [10, 0, 0, 1]\<rparr>, None, ppp0))"
    by code_simp
  have t: "nlmsg_type (ppp0_addr 32) = RTM_NEWADDR" by code_simp
  have u: "if_flags ppp0 AND IF_UNNUMBERED sample_flags \<noteq> 0" by code_simp
  have p: "ifa_prefixlen (nlmsg_data (ppp0_addr 32)) = 32" by code_simp
  have v: "\<not> (ifa_prefixlen (nlmsg_data (ppp0_addr 32)) > 32 \<or>
              ifa_prefixlen (nlmsg_data (ppp0_addr 32)) = 31 \<or>
              (if_flags ppp0 AND IF_UNNUMBERED sample_flags \<noteq> 0 \<and>
               ifa_prefixlen (nlmsg_data (ppp0_addr 32)) \<noteq> 32))"
    by code_simp
  have r: "nl_parse_addr sample_flags only_ppp0 (ppp0_addr 32) =
     ([], Some (ppp0\<lparr>if_ip := 0x0A000001, if_prefix := 0x0A000001, if_pxlen := 32,
                      if_brd := 0x0A000002, if_opposite := 0x0A000002\<rparr>))"
    by code_simp
  from nl_parse_addr_unnumbered [OF a t u v]
  have "\<exists>f. nl_parse_addr sample_flags only_ppp0 (ppp0_addr 32) = ([], Some f) \<and>
      if_pxlen f = 32 \<and>
      if_opposite f = ipa_ntoh (get_u32 [10, 0, 0, 2]) \<and>
      if_brd f = ipa_ntoh (get_u32 [10, 0, 0, 2])"
    by simp
  with a t u p r show ?thesis by blast
qed

section \<open>Routes from the kernel\<close>

subsection \<open>The source of a route\<close>

lemma nl_parse_route_accepted:
  assumes "nl_parse_route nf find_if tifs h scan = (lg, tifs', Some k)"
  shows "\<exists>src. nl_route_src (rtm_protocol (nlmsg_data h)) scan = Some src \<and>
           rte_krt_src (sink_rte k) = src"
  using assms
  by (auto simp: nl_parse_route_def Let_def rte_get_temp_def
      split: prod.splits option.splits if_splits dest!: nl_checkin_Some)

text \<open>
  C2. The \<^verbatim>\<open>switch (i->rtm_protocol)\<close> gives no source exactly for \<^verbatim>\<open>RTPROT_KERNEL\<close> and
  for \<^verbatim>\<open>RTPROT_BIRD\<close> outside a scan, and one source otherwise. So a route that
  \<^verbatim>\<open>nl_parse_route\<close> hands to the routing table is not of protocol \<^verbatim>\<open>RTPROT_KERNEL\<close>, is of
  protocol \<^verbatim>\<open>RTPROT_BIRD\<close> only during a scan, and carries \<^verbatim>\<open>KRT_SRC_REDIRECT\<close> for
  \<^verbatim>\<open>RTPROT_REDIRECT\<close>, \<^verbatim>\<open>KRT_SRC_BIRD\<close> for \<^verbatim>\<open>RTPROT_BIRD\<close> and \<^verbatim>\<open>KRT_SRC_ALIEN\<close> for every
  other protocol.
\<close>

theorem nl_parse_route_source_tag:
  assumes "nl_parse_route nf find_if tifs h scan = (lg, tifs', Some k)"
  shows "(\<forall>p sc. nl_route_src p sc = None \<longleftrightarrow>
            p = RTPROT_KERNEL \<or> (p = RTPROT_BIRD \<and> \<not> sc)) \<and>
         rtm_protocol (nlmsg_data h) \<noteq> RTPROT_KERNEL \<and>
         (rtm_protocol (nlmsg_data h) = RTPROT_BIRD \<longrightarrow> scan) \<and>
         rte_krt_src (sink_rte k) =
           (if rtm_protocol (nlmsg_data h) = RTPROT_REDIRECT then KRT_SRC_REDIRECT
            else if rtm_protocol (nlmsg_data h) = RTPROT_BIRD then KRT_SRC_BIRD
            else KRT_SRC_ALIEN)"
  using nl_parse_route_accepted [OF assms]
  by (auto simp: nl_route_src_def RTPROT_KERNEL_def RTPROT_BIRD_def RTPROT_REDIRECT_def
      split: if_splits)

theorem nl_parse_route_source_tag_witness:
  "nl_parse_route no_neighbor no_iface [] (gateway_route RTPROT_BIRD) True =
     ([(L_WARN, ''Kernel told us to use non-neighbor %I for %I/%d'')], [],
      Some (Krt_got_route
        \<lparr>rte_net = \<lparr>n_prefix = 0xC0000200, n_pxlen = 24\<rparr>,
         rte_attrs = nl_route_ra\<lparr>ra_dest := RTD_ROUTER, ra_gw := 0xC6336401\<rparr>,
         rte_krt_src = KRT_SRC_BIRD\<rparr>)) \<and>
   nl_parse_route no_neighbor no_iface [] (gateway_route RTPROT_BIRD) False = ([], [], None) \<and>
   nl_parse_route no_neighbor no_iface [] (gateway_route RTPROT_KERNEL) True = ([], [], None) \<and>
   rtm_protocol (nlmsg_data (gateway_route RTPROT_BIRD)) \<noteq> RTPROT_KERNEL \<and>
   rte_krt_src (sink_rte (Krt_got_route
        \<lparr>rte_net = \<lparr>n_prefix = 0xC0000200, n_pxlen = 24\<rparr>,
         rte_attrs = nl_route_ra\<lparr>ra_dest := RTD_ROUTER, ra_gw := 0xC6336401\<rparr>,
         rte_krt_src = KRT_SRC_BIRD\<rparr>)) = KRT_SRC_BIRD"
proof -
  have a: "nl_parse_route no_neighbor no_iface [] (gateway_route RTPROT_BIRD) True =
     ([(L_WARN, ''Kernel told us to use non-neighbor %I for %I/%d'')], [],
      Some (Krt_got_route
        \<lparr>rte_net = \<lparr>n_prefix = 0xC0000200, n_pxlen = 24\<rparr>,
         rte_attrs = nl_route_ra\<lparr>ra_dest := RTD_ROUTER, ra_gw := 0xC6336401\<rparr>,
         rte_krt_src = KRT_SRC_BIRD\<rparr>))"
    by code_simp
  have b: "nl_parse_route no_neighbor no_iface [] (gateway_route RTPROT_BIRD) False =
     ([], [], None)"
    by code_simp
  have c: "nl_parse_route no_neighbor no_iface [] (gateway_route RTPROT_KERNEL) True =
     ([], [], None)"
    by code_simp
  have p: "rtm_protocol (nlmsg_data (gateway_route RTPROT_BIRD)) = RTPROT_BIRD" by code_simp
  have q: "RTPROT_BIRD \<noteq> RTPROT_REDIRECT" by code_simp
  from nl_parse_route_source_tag [OF a] p q
  have "rtm_protocol (nlmsg_data (gateway_route RTPROT_BIRD)) \<noteq> RTPROT_KERNEL \<and>
     rte_krt_src (sink_rte (Krt_got_route
        \<lparr>rte_net = \<lparr>n_prefix = 0xC0000200, n_pxlen = 24\<rparr>,
         rte_attrs = nl_route_ra\<lparr>ra_dest := RTD_ROUTER, ra_gw := 0xC6336401\<rparr>,
         rte_krt_src = KRT_SRC_BIRD\<rparr>)) = KRT_SRC_BIRD"
    by simp
  with a b c show ?thesis by blast
qed

subsection \<open>The interface of a unicast route\<close>

lemma krt_temp_iface_index: "if_index (fst (krt_temp_iface find_if tifs idx)) = idx"
  by (auto simp: krt_temp_iface_def Let_def find_Some_iff split: option.splits)

lemma nl_route_dest_no_oif:
  "nl_route_dest nf find_if tifs RTN_UNICAST g (- 1) ra =
     ([(L_ERR, ''KRT: Mysterious route with no OIF (%I/%d)'')], tifs, None)"
  by (simp add: nl_route_dest_def)

lemma nl_parse_route_unicast:
  assumes "nl_parse_route nf find_if tifs h scan = (lg, tifs', Some k)"
    and "rtm_type (nlmsg_data h) = RTN_UNICAST"
  shows "\<exists>o_if. nl_route_table h ! RTA_OIF = Some o_if \<and>
           nl_route_dest nf find_if tifs RTN_UNICAST (nl_route_table h ! RTA_GATEWAY)
             (get_u32 (rta_data o_if)) nl_route_ra = (lg, tifs', Some (rte_attrs (sink_rte k)))"
  using assms
  by (auto simp: nl_parse_route_def nl_route_table_def Let_def rte_get_temp_def
      nl_route_dest_no_oif
      split: prod.splits option.splits if_splits dest!: nl_checkin_Some nl_parse_attrs_ok)

text \<open>
  C1, as the code has it. Let a route message of type \<^verbatim>\<open>RTN_UNICAST\<close> be accepted. If it
  carries \<^verbatim>\<open>RTA_GATEWAY\<close> and the gateway is no neighbor, a warning is logged and the route
  goes to the routing table with destination \<^verbatim>\<open>RTD_ROUTER\<close>, with the gateway and with no
  interface (\<^verbatim>\<open>ra.iface\<close> stays \<^verbatim>\<open>NULL\<close>); the list of temporary interfaces is neither
  read nor changed. If the gateway is a neighbor, the route has the pointer
  \<^verbatim>\<open>ng->iface\<close>. If the message carries no \<^verbatim>\<open>RTA_GATEWAY\<close>, the route has destination
  \<^verbatim>\<open>RTD_DEVICE\<close> and the interface that \<^verbatim>\<open>krt_temp_iface\<close> gives for the index in
  \<^verbatim>\<open>RTA_OIF\<close>.
\<close>

theorem nl_parse_route_unicast_iface:
  assumes "nl_parse_route nf find_if tifs h scan = (lg, tifs', Some k)"
    and "rtm_type (nlmsg_data h) = RTN_UNICAST"
  shows "(\<forall>g. nl_route_table h ! RTA_GATEWAY = Some g \<longrightarrow>
            nf (ipa_ntoh (get_u32 (rta_data g))) = None \<longrightarrow>
              lg = [(L_WARN, ''Kernel told us to use non-neighbor %I for %I/%d'')] \<and>
              ra_dest (rte_attrs (sink_rte k)) = RTD_ROUTER \<and>
              ra_gw (rte_attrs (sink_rte k)) = ipa_ntoh (get_u32 (rta_data g)) \<and>
              ra_iface (rte_attrs (sink_rte k)) = None \<and> tifs' = tifs) \<and>
         (\<forall>g ng. nl_route_table h ! RTA_GATEWAY = Some g \<longrightarrow>
            nf (ipa_ntoh (get_u32 (rta_data g))) = Some ng \<longrightarrow>
              ra_dest (rte_attrs (sink_rte k)) = RTD_ROUTER \<and>
              ra_iface (rte_attrs (sink_rte k)) = neigh_iface ng \<and> tifs' = tifs) \<and>
         (nl_route_table h ! RTA_GATEWAY = None \<longrightarrow>
            (\<exists>o_if. nl_route_table h ! RTA_OIF = Some o_if \<and>
               ra_dest (rte_attrs (sink_rte k)) = RTD_DEVICE \<and>
               ra_iface (rte_attrs (sink_rte k)) =
                 Some (fst (krt_temp_iface find_if tifs (get_u32 (rta_data o_if)))) \<and>
               if_index (fst (krt_temp_iface find_if tifs (get_u32 (rta_data o_if)))) =
                 get_u32 (rta_data o_if) \<and>
               tifs' = snd (krt_temp_iface find_if tifs (get_u32 (rta_data o_if)))))"
proof -
  define a where "a = rte_attrs (sink_rte k)"
  from nl_parse_route_unicast [OF assms] obtain o_if where
    oif: "nl_route_table h ! RTA_OIF = Some o_if" and
    d: "nl_route_dest nf find_if tifs RTN_UNICAST (nl_route_table h ! RTA_GATEWAY)
          (get_u32 (rta_data o_if)) nl_route_ra = (lg, tifs', Some a)"
    unfolding a_def by blast
  from d oif show ?thesis
    unfolding a_def [symmetric]
    by (auto simp: nl_route_dest_def nl_route_ra_def Let_def krt_temp_iface_index
        split: option.splits prod.splits if_splits)
qed

theorem nl_parse_route_unicast_iface_witness:
  "nl_parse_route no_neighbor no_iface [] (gateway_route 4) True =
     ([(L_WARN, ''Kernel told us to use non-neighbor %I for %I/%d'')], [],
      Some (Krt_got_route
        \<lparr>rte_net = \<lparr>n_prefix = 0xC0000200, n_pxlen = 24\<rparr>,
         rte_attrs = nl_route_ra\<lparr>ra_dest := RTD_ROUTER, ra_gw := 0xC6336401\<rparr>,
         rte_krt_src = KRT_SRC_ALIEN\<rparr>)) \<and>
   rtm_type (nlmsg_data (gateway_route 4)) = RTN_UNICAST \<and>
   nl_route_table (gateway_route 4) ! RTA_GATEWAY =
     Some \<lparr>rta_len = 8, rta_type = 5, rta_data = [198, 51, 100, 1]\<rparr> \<and>
   no_neighbor (ipa_ntoh (get_u32 [198, 51, 100, 1])) = None \<and>
   ra_iface (rte_attrs (sink_rte (Krt_got_route
        \<lparr>rte_net = \<lparr>n_prefix = 0xC0000200, n_pxlen = 24\<rparr>,
         rte_attrs = nl_route_ra\<lparr>ra_dest := RTD_ROUTER, ra_gw := 0xC6336401\<rparr>,
         rte_krt_src = KRT_SRC_ALIEN\<rparr>))) = None"
proof -
  have a: "nl_parse_route no_neighbor no_iface [] (gateway_route 4) True =
     ([(L_WARN, ''Kernel told us to use non-neighbor %I for %I/%d'')], [],
      Some (Krt_got_route
        \<lparr>rte_net = \<lparr>n_prefix = 0xC0000200, n_pxlen = 24\<rparr>,
         rte_attrs = nl_route_ra\<lparr>ra_dest := RTD_ROUTER, ra_gw := 0xC6336401\<rparr>,
         rte_krt_src = KRT_SRC_ALIEN\<rparr>))"
    by code_simp
  have t: "rtm_type (nlmsg_data (gateway_route 4)) = RTN_UNICAST" by code_simp
  have g: "nl_route_table (gateway_route 4) ! RTA_GATEWAY =
     Some \<lparr>rta_len = 8, rta_type = 5, rta_data = [198, 51, 100, 1]\<rparr>"
    by code_simp
  have n: "no_neighbor (ipa_ntoh (get_u32 [198, 51, 100, 1])) = None"
    by (simp add: no_neighbor_def)
  from nl_parse_route_unicast_iface [OF a t] g n
  have "ra_iface (rte_attrs (sink_rte (Krt_got_route
        \<lparr>rte_net = \<lparr>n_prefix = 0xC0000200, n_pxlen = 24\<rparr>,
         rte_attrs = nl_route_ra\<lparr>ra_dest := RTD_ROUTER, ra_gw := 0xC6336401\<rparr>,
         rte_krt_src = KRT_SRC_ALIEN\<rparr>))) = None"
    by simp
  with a t g n show ?thesis by blast
qed

text \<open>
  C1, as the claim has it, fails. The message for 192.0.2.0/24 via 198.51.100.1 on the
  interface 7, when 198.51.100.1 is no neighbor, is accepted with a warning, but the
  route has no interface and the list of temporary interfaces stays empty: no entry for
  the index 7 is made.
\<close>

theorem nl_parse_route_non_neighbor_counterexample:
  "nl_parse_route no_neighbor no_iface [] (gateway_route 4) True =
     ([(L_WARN, ''Kernel told us to use non-neighbor %I for %I/%d'')], [],
      Some (Krt_got_route non_neighbor_rte)) \<and>
   ra_iface (rte_attrs non_neighbor_rte) = None \<and>
   ra_iface (rte_attrs non_neighbor_rte) \<noteq> Some (fst (krt_temp_iface no_iface [] 7))"
  by code_simp

section \<open>Routes to the kernel\<close>

lemma get_u32_4:
  "get_u32 [b0, b1, b2, b3] =
     ucast b0 OR push_bit 8 (ucast b1) OR push_bit 16 (ucast b2) OR push_bit 24 (ucast b3)"
  by (simp add: get_u32_def push_bit_or flip: push_bit_add)

text \<open>Writing a \<^verbatim>\<open>u32\<close> and reading it again gives the \<^verbatim>\<open>u32\<close>, and the same for four
  bytes; so \<^verbatim>\<open>ipa_ntoh\<close> undoes \<^verbatim>\<open>ipa_hton\<close>.\<close>

lemma get_u32_put_u32: "get_u32 (put_u32 w) = w"
  unfolding put_u32_def get_u32_4
proof (rule bit_word_eqI)
  fix n assume "n < LENGTH(32)"
  then have "n < 8 \<or> (8 \<le> n \<and> n < 16) \<or> (16 \<le> n \<and> n < 24) \<or> (24 \<le> n \<and> n < 32)"
    by auto
  then show "bit (ucast (ucast w :: byte) OR push_bit 8 (ucast (ucast (drop_bit 8 w) :: byte)) OR
         push_bit 16 (ucast (ucast (drop_bit 16 w) :: byte)) OR
         push_bit 24 (ucast (ucast (drop_bit 24 w) :: byte)) :: u32) n = bit w n"
    by (auto simp: bit_simps)
qed

lemma put_u32_get_u32: "put_u32 (get_u32 [b0, b1, b2, b3]) = [b0, b1, b2, b3]"
  unfolding put_u32_def get_u32_4
  apply simp
  apply (intro conjI; rule bit_word_eqI)
     apply (auto simp: bit_simps dest: bit_imp_le_length)
  done

lemma ipa_ntoh_hton: "ipa_ntoh (ipa_hton x) = x"
  unfolding ipa_ntoh_def ipa_hton_def
  by (simp add: put_u32_def [of x] put_u32_get_u32 get_u32_put_u32 [unfolded put_u32_def])

text \<open>The buffer of 128 bytes is never too small for the one or two attributes of a
  route.\<close>

lemma nl_add_attr_ipa_fits:
  "nlmsg_len h = 28 \<or> nlmsg_len h = 36 \<Longrightarrow>
   nl_add_attr_ipa h sizeof_route_req code ipa =
     Inr (h\<lparr>nlmsg_attrs := nlmsg_attrs h @
              [\<lparr>rta_len = 8, rta_type = word_of_int code, rta_data = put_u32 (ipa_hton ipa)\<rparr>],
            nlmsg_len := nlmsg_len h + 8\<rparr>)"
  by (auto simp: nl_add_attr_ipa_def sizeof_route_req_eq RTA_LENGTH_eq NLMSG_ALIGN_def Let_def)

lemma nl_add_attr_u32_fits:
  "nlmsg_len h = 28 \<or> nlmsg_len h = 36 \<Longrightarrow>
   nl_add_attr_u32 h sizeof_route_req code data =
     Inr (h\<lparr>nlmsg_attrs := nlmsg_attrs h @
              [\<lparr>rta_len = 8, rta_type = word_of_int code, rta_data = put_u32 data\<rparr>],
            nlmsg_len := nlmsg_len h + 8\<rparr>)"
  by (auto simp: nl_add_attr_u32_def sizeof_route_req_eq RTA_LENGTH_eq NLMSG_ALIGN_def Let_def)

text \<open>The request that \<^verbatim>\<open>nl_send_route\<close> builds for a route that \<^verbatim>\<open>krt_capable\<close>
  accepts.\<close>

lemma nl_route_req_capable:
  assumes cap: "krt_capable e"
    and dev: "ra_dest (rte_attrs e) = RTD_DEVICE \<Longrightarrow> ra_iface (rte_attrs e) = Some ifa"
  shows "\<exists>r. nl_route_req e new = Inr r \<and>
     nlmsg_type r = (if new then RTM_NEWROUTE else RTM_DELROUTE) \<and>
     nlmsg_flags r = (if new then NLM_F_REQUEST OR NLM_F_ACK OR (NLM_F_CREATE OR NLM_F_REPLACE)
                      else NLM_F_REQUEST OR NLM_F_ACK) \<and>
     nlmsg_attrs r =
       \<lparr>rta_len = 8, rta_type = of_nat RTA_DST,
        rta_data = put_u32 (ipa_hton (n_prefix (rte_net e)))\<rparr> #
       (case ra_dest (rte_attrs e) of
          RTD_ROUTER \<Rightarrow> [\<lparr>rta_len = 8, rta_type = of_nat RTA_GATEWAY,
                          rta_data = put_u32 (ipa_hton (ra_gw (rte_attrs e)))\<rparr>]
        | RTD_DEVICE \<Rightarrow> [\<lparr>rta_len = 8, rta_type = of_nat RTA_OIF,
                          rta_data = put_u32 (if_index ifa)\<rparr>]
        | _ \<Rightarrow> [])"
proof (cases "ra_dest (rte_attrs e)")
  case RTD_ROUTER
  then show ?thesis
    by (simp add: nl_route_req_def Let_def nl_add_attr_ipa_fits NLMSG_LENGTH_eq sizeof_rtmsg_eq)
next
  case RTD_DEVICE
  with dev show ?thesis
    by (simp add: nl_route_req_def Let_def nl_add_attr_ipa_fits nl_add_attr_u32_fits
        NLMSG_LENGTH_eq sizeof_rtmsg_eq)
next
  case RTD_BLACKHOLE
  then show ?thesis
    by (simp add: nl_route_req_def Let_def nl_add_attr_ipa_fits NLMSG_LENGTH_eq sizeof_rtmsg_eq)
next
  case RTD_UNREACHABLE
  then show ?thesis
    by (simp add: nl_route_req_def Let_def nl_add_attr_ipa_fits NLMSG_LENGTH_eq sizeof_rtmsg_eq)
next
  case RTD_PROHIBIT
  then show ?thesis
    by (simp add: nl_route_req_def Let_def nl_add_attr_ipa_fits NLMSG_LENGTH_eq sizeof_rtmsg_eq)
next
  case RTD_OTHER
  with cap show ?thesis by (simp add: krt_capable_def Let_def split: if_splits)
qed

text \<open>Receiving changes nothing of what was sent.\<close>

lemma nl_get_reply_turn_tx:
  "nl_get_reply_turn s = Return h s' \<Longrightarrow> tx_sent s' = tx_sent s"
  "nl_get_reply_turn s = Continue s' \<Longrightarrow> tx_sent s' = tx_sent s"
  by (cases "nl_last_hdr s";
      auto simp: nl_get_reply_turn_def nl_get_reply_inspect_def nl_get_reply_remnant_def Let_def
        split: list.splits if_splits)+

lemma nl_get_reply_tx:
  assumes "nl_get_reply s = Some y"
  shows "\<forall>h s'. y = Inr (h, s') \<longrightarrow> tx_sent s' = tx_sent s"
  using assms
  by (rule nl_get_reply_rule
        [where P = "\<lambda>s y. \<forall>h s'. y = Inr (h, s') \<longrightarrow> tx_sent s' = tx_sent s"])
    (auto dest: nl_get_reply_turn_tx)

lemma nl_exchange_wait_tx:
  assumes "nl_exchange_wait s = Some y"
  shows "\<forall>h s'. y = Inr (h, s') \<longrightarrow> tx_sent s' = tx_sent s"
proof (rule nl_exchange_wait.raw_induct
    [where P = "\<lambda>s y. \<forall>h s'. y = Inr (h, s') \<longrightarrow> tx_sent s' = tx_sent s", OF _ assms])
  show "\<forall>h s'. y' = Inr (h, s') \<longrightarrow> tx_sent s' = tx_sent s0"
    if IH: "\<And>x y. f x = Some y \<Longrightarrow> \<forall>h s'. y = Inr (h, s') \<longrightarrow> tx_sent s' = tx_sent x"
      and body: "Option.bind (nl_get_reply s0) (\<lambda>r.
         case r of
           Inl e \<Rightarrow> Some (Inl e)
         | Inr (h, s') \<Rightarrow>
             if nlmsg_type h = NLMSG_ERROR then Some (Inr (h, s'))
             else f (s'\<lparr>nl_log := nl_log s' @
                          [(L_WARN, ''nl_exchange: Unexpected reply received'')]\<rparr>)) = Some y'"
    for f s0 y'
  proof -
    from body obtain r where r: "nl_get_reply s0 = Some r"
      by (cases "nl_get_reply s0") auto
    show ?thesis
    proof (cases r)
      case (Inl e)
      with body r show ?thesis by auto
    next
      case (Inr p)
      obtain h1 s1 where p: "p = (h1, s1)" by (cases p)
      from nl_get_reply_tx [OF r] Inr p have tx: "tx_sent s1 = tx_sent s0" by simp
      show ?thesis
      proof (cases "nlmsg_type h1 = NLMSG_ERROR")
        case True
        with body r Inr p tx show ?thesis by auto
      next
        case False
        with body r Inr p
        have "f (s1\<lparr>nl_log := nl_log s1 @
                [(L_WARN, ''nl_exchange: Unexpected reply received'')]\<rparr>) = Some y'"
          by simp
        from IH [OF this] tx show ?thesis by simp
      qed
    qed
  qed
qed

text \<open>When \<^verbatim>\<open>nl_send_route\<close> returns, it has given one message to \<^verbatim>\<open>sendto\<close>: its
  request, stamped with pid 0 and the next sequence number.\<close>

lemma nl_send_route_sends:
  assumes "nl_send_route e new s = Some (Inr s')"
  shows "\<exists>r. nl_route_req e new = Inr r \<and>
           tx_sent s' = tx_sent s @ [r\<lparr>nlmsg_pid := 0, nlmsg_seq := nl_sync_seq s + 1\<rparr>]"
proof -
  from assms obtain r where r: "nl_route_req e new = Inr r"
    by (cases "nl_route_req e new") (auto simp: nl_send_route_def)
  have "\<exists>ec. nl_exchange r s = Some (Inr (ec, s'))"
  proof (cases "nl_exchange r s")
    case None
    with assms r show ?thesis by (simp add: nl_send_route_def)
  next
    case (Some y)
    with assms r show ?thesis by (cases y) (auto simp: nl_send_route_def)
  qed
  then obtain ec where x: "nl_exchange r s = Some (Inr (ec, s'))" by blast
  then obtain s1 where s1: "nl_send r s = Inr s1"
    by (cases "nl_send r s") (auto simp: nl_exchange_def)
  have "\<exists>h s2. nl_exchange_wait s1 = Some (Inr (h, s2)) \<and>
           s' = s2\<lparr>nl_log := nl_log s2 @ fst (nl_error h)\<rparr>"
  proof (cases "nl_exchange_wait s1")
    case None
    with x s1 show ?thesis by (simp add: nl_exchange_def)
  next
    case (Some y)
    with x s1 show ?thesis
      by (cases y) (auto simp: nl_exchange_def split: prod.splits)
  qed
  then obtain h s2 where w: "nl_exchange_wait s1 = Some (Inr (h, s2))"
    and s': "s' = s2\<lparr>nl_log := nl_log s2 @ fst (nl_error h)\<rparr>"
    by blast
  from nl_exchange_wait_tx [OF w] have "tx_sent s2 = tx_sent s1" by simp
  moreover from s1
  have "tx_sent s1 = tx_sent s @ [r\<lparr>nlmsg_pid := 0, nlmsg_seq := nl_sync_seq s + 1\<rparr>]"
    by (auto simp: nl_send_def Let_def split: if_splits)
  ultimately show ?thesis using r s' by simp
qed

text \<open>A call of \<^verbatim>\<open>nl_get_reply\<close> with the cursor \<^verbatim>\<open>NULL\<close> returns the first message of
  the next datagram, when this datagram comes from the kernel and the message is
  complete and in sequence.\<close>

lemma nl_get_reply_head:
  assumes "nl_last_hdr s = None" and "rx_queue s = d # ds"
    and "0 \<le> dg_ret d" and "dg_pid d = 0" and "\<not> dg_trunc d"
    and "dg_frames d = h # rest"
    and "NLMSG_OK h (word_of_int (dg_ret d))" and "nlmsg_seq h = nl_sync_seq s"
  shows "nl_get_reply s =
           Some (Inr (h, s\<lparr>rx_queue := ds,
                            nl_last_size := word_of_int (dg_ret d) - NLMSG_ALIGN (nlmsg_len h),
                            nl_last_hdr := Some rest\<rparr>))"
  by (subst nl_get_reply.simps)
    (simp add: nl_get_reply_turn_def nl_get_reply_inspect_def Let_def assms not_less)

text \<open>With a kernel that acknowledges at once, \<^verbatim>\<open>nl_send_route\<close> returns, and it has sent
  its request and taken the datagram of the acknowledgement.\<close>

lemma nl_send_route_acked:
  assumes ack: "kernel_acks s" and r: "nl_route_req e new = Inr r"
  shows "\<exists>s'. nl_send_route e new s = Some (Inr s') \<and>
           tx_sent s' = tx_sent s @ [r\<lparr>nlmsg_pid := 0, nlmsg_seq := nl_sync_seq s + 1\<rparr>] \<and>
           rx_queue s' = tl (rx_queue s)"
proof -
  from ack obtain d ds h rest where
    ok: "\<not> sendto_fails s" and q: "rx_queue s = d # ds"
    and d: "0 \<le> dg_ret d" "dg_pid d = 0" "\<not> dg_trunc d" and f: "dg_frames d = h # rest"
    and h: "NLMSG_OK h (word_of_int (dg_ret d))" "nlmsg_seq h = nl_sync_seq s + 1"
      "nlmsg_type h = NLMSG_ERROR"
    by (auto simp: kernel_acks_def split: list.splits)
  define s1 where "s1 = s\<lparr>nl_sync_seq := nl_sync_seq s + 1,
     tx_sent := tx_sent s @ [r\<lparr>nlmsg_pid := 0, nlmsg_seq := nl_sync_seq s + 1\<rparr>],
     nl_last_hdr := None\<rparr>"
  define s2 where "s2 = s1\<lparr>rx_queue := ds,
     nl_last_size := word_of_int (dg_ret d) - NLMSG_ALIGN (nlmsg_len h),
     nl_last_hdr := Some rest\<rparr>"
  have snd: "nl_send r s = Inr s1"
    using ok by (simp add: nl_send_def Let_def s1_def)
  have "nl_get_reply s1 = Some (Inr (h, s2))"
    unfolding s2_def
    by (rule nl_get_reply_head [where d = d])
      (simp_all add: s1_def q d f h)
  then have "nl_exchange_wait s1 = Some (Inr (h, s2))"
    by (subst nl_exchange_wait.simps) (simp add: h)
  with snd have "nl_exchange r s =
      Some (Inr (snd (nl_error h), s2\<lparr>nl_log := nl_log s2 @ fst (nl_error h)\<rparr>))"
    by (simp add: nl_exchange_def split: prod.splits)
  with r have "nl_send_route e new s =
      Some (Inr (s2\<lparr>nl_log := nl_log s2 @ fst (nl_error h)\<rparr>))"
    by (simp add: nl_send_route_def)
  then show ?thesis by (simp add: s2_def s1_def q)
qed

text \<open>
  C5. For a route that \<^verbatim>\<open>krt_capable\<close> accepts (a device route having an interface, whose
  index is read) \<^verbatim>\<open>nl_send_route\<close> builds a request without failing. Its flags are
  \<^verbatim>\<open>NLM_F_REQUEST | NLM_F_ACK\<close>, with \<^verbatim>\<open>NLM_F_CREATE | NLM_F_REPLACE\<close> added exactly when
  the route is installed. Its first attribute is \<^verbatim>\<open>RTA_DST\<close> with the destination prefix
  in network byte order; a \<^verbatim>\<open>RTD_ROUTER\<close> route has \<^verbatim>\<open>RTA_GATEWAY\<close> with the gateway as
  second attribute, a \<^verbatim>\<open>RTD_DEVICE\<close> route \<^verbatim>\<open>RTA_OIF\<close> with the index of its interface, and
  the other routes have no further attribute. This request, stamped with pid 0 and the
  next sequence number, is what \<^verbatim>\<open>nl_send\<close> gives to \<^verbatim>\<open>sendto\<close>. With a kernel that
  acknowledges at once \<^verbatim>\<open>nl_send_route\<close> returns and has sent this message; and
  whenever it returns, this is the one message it has sent.
\<close>

theorem nl_send_route_frame:
  assumes cap: "krt_capable e"
    and dev: "ra_dest (rte_attrs e) = RTD_DEVICE \<Longrightarrow> ra_iface (rte_attrs e) = Some ifa"
  shows "\<exists>r. nl_route_req e new = Inr r \<and>
     nlmsg_flags r = (if new then NLM_F_REQUEST OR NLM_F_ACK OR (NLM_F_CREATE OR NLM_F_REPLACE)
                      else NLM_F_REQUEST OR NLM_F_ACK) \<and>
     nlmsg_flags r AND (NLM_F_CREATE OR NLM_F_REPLACE) =
       (if new then NLM_F_CREATE OR NLM_F_REPLACE else 0) \<and>
     nlmsg_attrs r =
       \<lparr>rta_len = 8, rta_type = of_nat RTA_DST,
        rta_data = put_u32 (ipa_hton (n_prefix (rte_net e)))\<rparr> #
       (case ra_dest (rte_attrs e) of
          RTD_ROUTER \<Rightarrow> [\<lparr>rta_len = 8, rta_type = of_nat RTA_GATEWAY,
                          rta_data = put_u32 (ipa_hton (ra_gw (rte_attrs e)))\<rparr>]
        | RTD_DEVICE \<Rightarrow> [\<lparr>rta_len = 8, rta_type = of_nat RTA_OIF,
                          rta_data = put_u32 (if_index ifa)\<rparr>]
        | _ \<Rightarrow> []) \<and>
     ipa_ntoh (get_u32 (rta_data (hd (nlmsg_attrs r)))) = n_prefix (rte_net e) \<and>
     (\<forall>s :: (rtmsg, nlmsgerr) nl_sync. \<not> sendto_fails s \<longrightarrow>
        (\<exists>s1. nl_send r s = Inr s1 \<and>
           tx_sent s1 = tx_sent s @ [r\<lparr>nlmsg_pid := 0, nlmsg_seq := nl_sync_seq s + 1\<rparr>])) \<and>
     (\<forall>s. kernel_acks s \<longrightarrow>
        (\<exists>s'. nl_send_route e new s = Some (Inr s') \<and>
           tx_sent s' = tx_sent s @ [r\<lparr>nlmsg_pid := 0, nlmsg_seq := nl_sync_seq s + 1\<rparr>] \<and>
           rx_queue s' = tl (rx_queue s))) \<and>
     (\<forall>s s'. nl_send_route e new s = Some (Inr s') \<longrightarrow>
        tx_sent s' = tx_sent s @ [r\<lparr>nlmsg_pid := 0, nlmsg_seq := nl_sync_seq s + 1\<rparr>])"
proof -
  from nl_route_req_capable [OF cap dev, of new] obtain r where
    r: "nl_route_req e new = Inr r"
    and fl: "nlmsg_flags r =
      (if new then NLM_F_REQUEST OR NLM_F_ACK OR (NLM_F_CREATE OR NLM_F_REPLACE)
       else NLM_F_REQUEST OR NLM_F_ACK)"
    and ats: "nlmsg_attrs r =
       \<lparr>rta_len = 8, rta_type = of_nat RTA_DST,
        rta_data = put_u32 (ipa_hton (n_prefix (rte_net e)))\<rparr> #
       (case ra_dest (rte_attrs e) of
          RTD_ROUTER \<Rightarrow> [\<lparr>rta_len = 8, rta_type = of_nat RTA_GATEWAY,
                          rta_data = put_u32 (ipa_hton (ra_gw (rte_attrs e)))\<rparr>]
        | RTD_DEVICE \<Rightarrow> [\<lparr>rta_len = 8, rta_type = of_nat RTA_OIF,
                          rta_data = put_u32 (if_index ifa)\<rparr>]
        | _ \<Rightarrow> [])"
    by blast
  have bits: "nlmsg_flags r AND (NLM_F_CREATE OR NLM_F_REPLACE) =
       (if new then NLM_F_CREATE OR NLM_F_REPLACE else 0)"
    unfolding fl
    by (simp add: NLM_F_REQUEST_def NLM_F_ACK_def NLM_F_CREATE_def NLM_F_REPLACE_def)
  have readback: "ipa_ntoh (get_u32 (rta_data (hd (nlmsg_attrs r)))) = n_prefix (rte_net e)"
    unfolding ats by (simp add: get_u32_put_u32 ipa_ntoh_hton)
  have sent: "tx_sent s' = tx_sent s @ [r\<lparr>nlmsg_pid := 0, nlmsg_seq := nl_sync_seq s + 1\<rparr>]"
    if "nl_send_route e new s = Some (Inr s')" for s s'
    using nl_send_route_sends [OF that] r by simp
  have emit: "\<exists>s1. nl_send r s = Inr s1 \<and>
           tx_sent s1 = tx_sent s @ [r\<lparr>nlmsg_pid := 0, nlmsg_seq := nl_sync_seq s + 1\<rparr>]"
    if "\<not> sendto_fails s" for s :: "(rtmsg, nlmsgerr) nl_sync"
    using that by (simp add: nl_send_def Let_def)
  have returns: "\<exists>s'. nl_send_route e new s = Some (Inr s') \<and>
           tx_sent s' = tx_sent s @ [r\<lparr>nlmsg_pid := 0, nlmsg_seq := nl_sync_seq s + 1\<rparr>] \<and>
           rx_queue s' = tl (rx_queue s)"
    if "kernel_acks s" for s
    using nl_send_route_acked [OF that r] .
  from r fl bits ats readback emit returns sent show ?thesis by blast
qed

theorem nl_send_route_frame_witness:
  "krt_capable device_route \<and>
   ra_dest (rte_attrs device_route) = RTD_DEVICE \<and>
   ra_iface (rte_attrs device_route) = Some ppp0 \<and>
   kernel_acks acking_kernel \<and>
   (\<exists>r. nl_route_req device_route True = Inr r \<and>
      nlmsg_flags r = 0x505 \<and>
      nlmsg_attrs r = [\<lparr>rta_len = 8, rta_type = 1, rta_data = [192, 0, 2, 0]\<rparr>,
                       \<lparr>rta_len = 8, rta_type = 4, rta_data = [2, 0, 0, 0]\<rparr>] \<and>
      (\<exists>s'. nl_send_route device_route True acking_kernel = Some (Inr s') \<and>
         tx_sent s' = [r\<lparr>nlmsg_pid := 0, nlmsg_seq := 6\<rparr>] \<and> rx_queue s' = [])) \<and>
   map_option (map_sum id (map nlmsg_attrs \<circ> tx_sent))
       (nl_send_route device_route True acking_kernel) =
     Some (Inr [[\<lparr>rta_len = 8, rta_type = 1, rta_data = [192, 0, 2, 0]\<rparr>,
                 \<lparr>rta_len = 8, rta_type = 4, rta_data = [2, 0, 0, 0]\<rparr>]]) \<and>
   map_sum id nlmsg_attrs (nl_route_req router_route True) =
     Inr [\<lparr>rta_len = 8, rta_type = 1, rta_data = [192, 0, 2, 0]\<rparr>,
          \<lparr>rta_len = 8, rta_type = 5, rta_data = [10, 0, 0, 254]\<rparr>] \<and>
   map_sum id nlmsg_flags (nl_route_req router_route True) = Inr 0x505 \<and>
   map_sum id nlmsg_flags (nl_route_req router_route False) = Inr 0x5"
proof -
  have cap: "krt_capable device_route" by code_simp
  have dst: "ra_dest (rte_attrs device_route) = RTD_DEVICE" by code_simp
  have dev: "ra_iface (rte_attrs device_route) = Some ppp0" by code_simp
  have ack: "kernel_acks acking_kernel" by code_simp
  have e1: "put_u32 (ipa_hton (n_prefix (rte_net device_route))) = [192, 0, 2, 0]"
    by code_simp
  have e2: "put_u32 (if_index ppp0) = [2, 0, 0, 0]" by code_simp
  have e3: "NLM_F_REQUEST OR NLM_F_ACK OR (NLM_F_CREATE OR NLM_F_REPLACE) = (0x505 :: u16)"
    by code_simp
  have e4: "(of_nat RTA_DST :: u16) = 1" "(of_nat RTA_OIF :: u16) = 4" by code_simp+
  have e5: "tx_sent acking_kernel = []" "nl_sync_seq acking_kernel + 1 = 6"
    "tl (rx_queue acking_kernel) = []"
    by code_simp+
  from nl_send_route_frame [OF cap dev, of True] ack
  have run: "\<exists>r. nl_route_req device_route True = Inr r \<and>
      nlmsg_flags r = 0x505 \<and>
      nlmsg_attrs r = [\<lparr>rta_len = 8, rta_type = 1, rta_data = [192, 0, 2, 0]\<rparr>,
                       \<lparr>rta_len = 8, rta_type = 4, rta_data = [2, 0, 0, 0]\<rparr>] \<and>
      (\<exists>s'. nl_send_route device_route True acking_kernel = Some (Inr s') \<and>
         tx_sent s' = [r\<lparr>nlmsg_pid := 0, nlmsg_seq := 6\<rparr>] \<and> rx_queue s' = [])"
    unfolding dst e1 e2 e3 e4 by (auto simp: e5)
  then have "map_option (map_sum id (map nlmsg_attrs \<circ> tx_sent))
       (nl_send_route device_route True acking_kernel) =
     Some (Inr [[\<lparr>rta_len = 8, rta_type = 1, rta_data = [192, 0, 2, 0]\<rparr>,
                 \<lparr>rta_len = 8, rta_type = 4, rta_data = [2, 0, 0, 0]\<rparr>]])"
    by auto
  moreover have "map_sum id nlmsg_attrs (nl_route_req router_route True) =
     Inr [\<lparr>rta_len = 8, rta_type = 1, rta_data = [192, 0, 2, 0]\<rparr>,
          \<lparr>rta_len = 8, rta_type = 5, rta_data = [10, 0, 0, 254]\<rparr>]"
    by code_simp
  moreover have "map_sum id nlmsg_flags (nl_route_req router_route True) = Inr 0x505"
    by code_simp
  moreover have "map_sum id nlmsg_flags (nl_route_req router_route False) = Inr 0x5"
    by code_simp
  ultimately show ?thesis using cap dst dev ack run by blast
qed

end
